theory Spec2Isabelle
  imports Complex_Main
begin

section \<open>The weekly quality query (the production SQL)\<close>

text \<open>
  The query is embedded table by table: a table is the list of its rows, a row is a record,
  and every common table expression (CTE) is a function with the CTE's name.  A nullable
  value is an \<open>option\<close> with \<open>None\<close> for NULL, and a truth value of SQL's three-valued
  logic is a \<open>bool option\<close>.  A date is the number of days since 1970-01-01.  Ratios are
  FLOAT64 in the query; they are embedded as exact rationals.

  The defective and the appearance metric run through two copies of the same text in the
  query (\<open>Defective30D\<close>/\<open>Appearance30D\<close>, \<open>DefectiveRuns\<close>/\<open>AppearanceRuns\<close>, ...).
  The embedding writes that text once, with the metric as a parameter, and gives each copy
  its own name.  The display columns that come from the seller master table (name, owner,
  tiering, activity), \<open>TIME_PERIOD\<close>, \<open>WEEK_NUMBER\<close> and the final \<open>ORDER BY\<close> are left
  out: no row is added or removed by them.
\<close>

subsection \<open>SQL scalars\<close>

datatype sql_error = DivisionByZero

definition sql_ge :: "int option \<Rightarrow> int \<Rightarrow> bool option" where
  "sql_ge a b = (case a of None \<Rightarrow> None | Some x \<Rightarrow> Some (b \<le> x))"

definition sql_gt :: "rat option \<Rightarrow> rat \<Rightarrow> bool option" where
  "sql_gt a b = (case a of None \<Rightarrow> None | Some x \<Rightarrow> Some (b < x))"

definition sql_and :: "bool option \<Rightarrow> bool option \<Rightarrow> bool option" where
  "sql_and a b =
     (if a = Some False \<or> b = Some False then Some False
      else if a = Some True \<and> b = Some True then Some True
      else None)"

text \<open>\<open>CASE WHEN c THEN ...\<close> takes the branch only when \<open>c\<close> is TRUE, not when it is NULL.\<close>

definition sql_when :: "bool option \<Rightarrow> bool" where
  "sql_when c = (c = Some True)"

definition COALESCE :: "'a option \<Rightarrow> 'a \<Rightarrow> 'a" where
  "COALESCE a d = (case a of None \<Rightarrow> d | Some x \<Rightarrow> x)"

definition NULLIF :: "int option \<Rightarrow> int \<Rightarrow> int option" where
  "NULLIF a b = (case a of None \<Rightarrow> None | Some x \<Rightarrow> if x = b then None else Some x)"

text \<open>\<open>SUM\<close> skips NULLs and is NULL when no value is left.\<close>

definition sql_SUM :: "int option list \<Rightarrow> int option" where
  "sql_SUM vs = (if filter (\<lambda>v. v \<noteq> None) vs = [] then None
                 else Some (sum_list (map (\<lambda>v. COALESCE v 0) vs)))"

text \<open>The division operator: NULL on a NULL operand, an error on a zero divisor.\<close>

definition sql_div :: "int option \<Rightarrow> int option \<Rightarrow> sql_error + rat option" where
  "sql_div a b =
     (case (a, b) of
        (Some x, Some y) \<Rightarrow> if y = 0 then Inl DivisionByZero else Inr (Some (of_int x / of_int y))
      | _ \<Rightarrow> Inr None)"

text \<open>\<open>ROUND(x, 6)\<close>: halfway cases are rounded away from zero.\<close>

definition ROUND6 :: "rat option \<Rightarrow> rat option" where
  "ROUND6 a =
     (case a of
        None \<Rightarrow> None
      | Some q \<Rightarrow>
          Some ((if 0 \<le> q then of_int \<lfloor>q * 1000000 + 1 / 2\<rfloor>
                 else - of_int \<lfloor>- q * 1000000 + 1 / 2\<rfloor>) / 1000000))"

text \<open>
  \<open>ROUND(SUM(issues) / NULLIF(SUM(delivered), 0), 6)\<close>, as every ratio of the query is
  written.  \<open>RATE_checked\<close> keeps the error of the division; \<open>RATE\<close> is its value.
\<close>

definition RATE_checked :: "int option \<Rightarrow> int option \<Rightarrow> sql_error + rat option" where
  "RATE_checked issues delivered =
     (case sql_div issues (NULLIF delivered 0) of
        Inl e \<Rightarrow> Inl e
      | Inr q \<Rightarrow> Inr (ROUND6 q))"

definition RATE :: "int option \<Rightarrow> int option \<Rightarrow> rat option" where
  "RATE issues delivered = (case RATE_checked issues delivered of Inl e \<Rightarrow> None | Inr q \<Rightarrow> q)"

text \<open>\<open>TRIM\<close> removes leading and trailing whitespace.\<close>

definition is_space :: "char \<Rightarrow> bool" where
  "is_space c = (c \<in> set [CHR 0x09, CHR 0x0A, CHR 0x0B, CHR 0x0C, CHR 0x0D, CHR 0x20, CHR 0xA0])"

definition TRIM :: "string \<Rightarrow> string" where
  "TRIM s = rev (dropWhile is_space (rev (dropWhile is_space s)))"

subsection \<open>Dates and the declared variables\<close>

text \<open>\<open>EXTRACT(DAYOFWEEK FROM d)\<close>: 1 is Sunday, 2 is Monday; day 0 is a Thursday.\<close>

definition DAYOFWEEK :: "int \<Rightarrow> int" where
  "DAYOFWEEK d = (d + 4) mod 7 + 1"

text \<open>\<open>DATE '2025-03-10'\<close>\<close>

definition start_date :: int where
  "start_date = 20157"

definition current_monday :: "int \<Rightarrow> int" where
  "current_monday CURRENT_DATE = CURRENT_DATE - (DAYOFWEEK CURRENT_DATE - 2)"

definition data_date :: "int \<Rightarrow> int" where
  "data_date CURRENT_DATE = current_monday CURRENT_DATE"

subsection \<open>Thresholds\<close>

datatype metric = Defective | Appearance

fun alert_threshold :: "metric \<Rightarrow> rat" where
  "alert_threshold Defective = 3 / 100"
| "alert_threshold Appearance = 75 / 10000"

fun critical_threshold :: "metric \<Rightarrow> rat" where
  "critical_threshold Defective = 4 / 100"
| "critical_threshold Appearance = 1 / 100"

subsection \<open>Rows\<close>

record seller_key =
  SELLER_ID :: string

record dated = seller_key +
  DATE_KPI :: int

record keyed = dated +
  MARKET :: string

text \<open>A row of \<open>historic_quality_order_management\<close>.\<close>

record hrow = keyed +
  NB_DEFECTIVE_ISSUE :: "int option"
  NB_APPEARANCE_ISSUE :: "int option"
  NB_ORDERLINE_DELIVERED_30D :: "int option"

fun NB_ISSUE :: "metric \<Rightarrow> hrow \<Rightarrow> int option" where
  "NB_ISSUE Defective r = NB_DEFECTIVE_ISSUE r"
| "NB_ISSUE Appearance r = NB_APPEARANCE_ISSUE r"

text \<open>A row of \<open>Defective30D\<close> or \<open>Appearance30D\<close>.\<close>

record agg30 = keyed +
  NB_ISSUE_30D :: "int option"
  NB_DELIVERED_30D :: "int option"
  ISSUE_RATE_30D :: "rat option"

record cs_row = dated +
  CURRENT_DEFECTIVE_STATUS :: int
  CURRENT_APPEARANCE_STATUS :: int

record weekly = dated +
  HAD_APPEARANCE_ISSUE :: int
  HAD_DEFECTIVE_ISSUE :: int

fun HAD_ISSUE :: "metric \<Rightarrow> 'a weekly_scheme \<Rightarrow> int" where
  "HAD_ISSUE Defective w = HAD_DEFECTIVE_ISSUE w"
| "HAD_ISSUE Appearance w = HAD_APPEARANCE_ISSUE w"

record numbered = weekly +
  WEEK_NUM_RELATIVE :: int

text \<open>A row of \<open>DefectiveRuns\<close> or \<open>AppearanceRuns\<close>; it keeps both flags of the week.\<close>

record run = numbered +
  ISSUE_GROUP :: int

record streak = run +
  STREAK_LENGTH :: int
  RECENCY_RANK :: int

record latest = dated +
  LATEST_STREAK :: int

text \<open>A row of \<open>EffectiveStreaks\<close>; it keeps \<open>ls.DATE_KPI\<close> next to the selected columns.\<close>

record es_row = cs_row +
  HISTORICAL_DEFECTIVE_STREAK :: int
  HISTORICAL_APPEARANCE_STREAK :: int
  EFFECTIVE_DEFECTIVE_STREAK :: int
  EFFECTIVE_APPEARANCE_STREAK :: int

record ea_row = seller_key +
  DEFECTIVE_EMAIL_ACTION :: string
  APPEARANCE_EMAIL_ACTION :: string
  FINAL_EMAIL_ACTION :: string

text \<open>A row of \<open>jp_sellers_contact\<close>.\<close>

record contact = seller_key +
  EMAIL :: "string option"

subsection \<open>Joins\<close>

definition left_join :: "'a list \<Rightarrow> ('a \<Rightarrow> 'b \<Rightarrow> bool) \<Rightarrow> 'b list \<Rightarrow> ('a \<times> 'b option) list" where
  "left_join xs on ys =
     concat (map (\<lambda>x. let ms = filter (on x) ys
                       in if ms = [] then [(x, None)] else map (\<lambda>y. (x, Some y)) ms) xs)"

definition inner_join :: "'a list \<Rightarrow> ('a \<Rightarrow> 'b \<Rightarrow> bool) \<Rightarrow> 'b list \<Rightarrow> ('a \<times> 'b) list" where
  "inner_join xs on ys = concat (map (\<lambda>x. map (\<lambda>y. (x, y)) (filter (on x) ys)) xs)"

subsection \<open>The current status\<close>

text \<open>
  \<open>LatestSellerInfo\<close>: one row (\<open>rn = 1\<close>) for each seller with a JP row dated \<open>data_date\<close>.
\<close>

definition LatestSellerInfo :: "int \<Rightarrow> hrow list \<Rightarrow> keyed list" where
  "LatestSellerInfo today h =
     map (\<lambda>s. \<lparr>SELLER_ID = s, DATE_KPI = data_date today, MARKET = ''JP''\<rparr>)
       (remdups (map SELLER_ID
          (filter (\<lambda>r. MARKET r = ''JP'' \<and> DATE_KPI r = data_date today) h)))"

text \<open>The rows of \<open>h\<close> that the 30-day CTEs join to a row \<open>ls\<close> and keep in their \<open>WHERE\<close>.\<close>

definition rows30 :: "hrow list \<Rightarrow> keyed \<Rightarrow> hrow list" where
  "rows30 h ls =
     filter (\<lambda>r. SELLER_ID r = SELLER_ID ls \<and> MARKET r = MARKET ls \<and> DATE_KPI r = DATE_KPI ls
                 \<and> MARKET r = ''JP''
                 \<and> DATE_KPI ls - 30 \<le> DATE_KPI r \<and> DATE_KPI r \<le> DATE_KPI ls) h"

definition agg30_row :: "metric \<Rightarrow> hrow list \<Rightarrow> keyed \<Rightarrow> agg30" where
  "agg30_row m h ls =
     \<lparr>SELLER_ID = SELLER_ID ls, DATE_KPI = DATE_KPI ls, MARKET = MARKET ls,
      NB_ISSUE_30D = sql_SUM (map (NB_ISSUE m) (rows30 h ls)),
      NB_DELIVERED_30D = sql_SUM (map NB_ORDERLINE_DELIVERED_30D (rows30 h ls)),
      ISSUE_RATE_30D = RATE (sql_SUM (map (NB_ISSUE m) (rows30 h ls)))
                            (sql_SUM (map NB_ORDERLINE_DELIVERED_30D (rows30 h ls)))\<rparr>"

text \<open>\<open>GROUP BY\<close> gives a row for each seller that has a joined row.\<close>

definition Metrics30D :: "metric \<Rightarrow> int \<Rightarrow> hrow list \<Rightarrow> agg30 list" where
  "Metrics30D m today h =
     concat (map (\<lambda>ls. if rows30 h ls = [] then [] else [agg30_row m h ls])
                 (LatestSellerInfo today h))"

definition Defective30D :: "int \<Rightarrow> hrow list \<Rightarrow> agg30 list" where
  "Defective30D = Metrics30D Defective"

definition Appearance30D :: "int \<Rightarrow> hrow list \<Rightarrow> agg30 list" where
  "Appearance30D = Metrics30D Appearance"

text \<open>
  The flag of \<open>CurrentStatus\<close> for one metric:
  \<open>CASE WHEN COALESCE(nb, 0) >= 2 AND COALESCE(rate, 0) > threshold THEN 1 ELSE 0 END\<close>,
  where \<open>x30\<close> is the left-joined 30-day row.
\<close>

definition CURRENT_STATUS :: "metric \<Rightarrow> agg30 option \<Rightarrow> int" where
  "CURRENT_STATUS m x30 =
     (if sql_when (sql_and
           (sql_ge (Some (COALESCE (Option.bind x30 NB_ISSUE_30D) 0)) 2)
           (sql_gt (Some (COALESCE (Option.bind x30 ISSUE_RATE_30D) 0)) (alert_threshold m)))
      then 1 else 0)"

definition same_seller_date :: "'a dated_scheme \<Rightarrow> 'b dated_scheme \<Rightarrow> bool" where
  "same_seller_date a b = (SELLER_ID a = SELLER_ID b \<and> DATE_KPI a = DATE_KPI b)"

definition CurrentStatus :: "int \<Rightarrow> hrow list \<Rightarrow> cs_row list" where
  "CurrentStatus today h =
     map (\<lambda>((ls, d30), a30).
            \<lparr>SELLER_ID = SELLER_ID ls, DATE_KPI = DATE_KPI ls,
             CURRENT_DEFECTIVE_STATUS = CURRENT_STATUS Defective d30,
             CURRENT_APPEARANCE_STATUS = CURRENT_STATUS Appearance a30\<rparr>)
       (left_join
          (left_join (LatestSellerInfo today h) same_seller_date (Defective30D today h))
          (\<lambda>(ls, d30) a30. same_seller_date ls a30) (Appearance30D today h))"

subsection \<open>The weekly flags and the streaks\<close>

text \<open>
  The flag of \<open>WeeklyData\<close> for one metric, from the two sums of the week's group:
  \<open>CASE WHEN SUM(nb) >= 2 AND ROUND(SUM(nb) / NULLIF(SUM(delivered), 0), 6) > threshold
  THEN 1 ELSE 0 END\<close>.
\<close>

definition WEEK_FLAG :: "metric \<Rightarrow> int option \<Rightarrow> int option \<Rightarrow> int" where
  "WEEK_FLAG m issues delivered =
     (if sql_when (sql_and (sql_ge issues 2) (sql_gt (RATE issues delivered) (alert_threshold m)))
      then 1 else 0)"

text \<open>The rows that pass the \<open>WHERE\<close> of \<open>WeeklyData\<close>, and the group of one week of one seller.\<close>

definition weekly_source :: "hrow list \<Rightarrow> hrow list" where
  "weekly_source h =
     filter (\<lambda>r. MARKET r = ''JP'' \<and> start_date \<le> DATE_KPI r \<and> DAYOFWEEK (DATE_KPI r) = 2) h"

definition week_rows :: "hrow list \<Rightarrow> int \<Rightarrow> string \<Rightarrow> hrow list" where
  "week_rows h d s = filter (\<lambda>r. DATE_KPI r = d \<and> SELLER_ID r = s) (weekly_source h)"

definition WeeklyData :: "hrow list \<Rightarrow> weekly list" where
  "WeeklyData h =
     map (\<lambda>(d, s).
            \<lparr>SELLER_ID = s, DATE_KPI = d,
             HAD_APPEARANCE_ISSUE =
               WEEK_FLAG Appearance (sql_SUM (map NB_APPEARANCE_ISSUE (week_rows h d s)))
                 (sql_SUM (map NB_ORDERLINE_DELIVERED_30D (week_rows h d s))),
             HAD_DEFECTIVE_ISSUE =
               WEEK_FLAG Defective (sql_SUM (map NB_DEFECTIVE_ISSUE (week_rows h d s)))
                 (sql_SUM (map NB_ORDERLINE_DELIVERED_30D (week_rows h d s)))\<rparr>)
       (remdups (map (\<lambda>r. (DATE_KPI r, SELLER_ID r)) (weekly_source h)))"

text \<open>
  The window of a row under \<open>PARTITION BY SELLER_ID ORDER BY DATE_KPI\<close> up to the current
  row: the rows of the same seller that are not later.  A seller has one row for a date in
  \<open>WeeklyData\<close>, so the order is total and \<open>ROW_NUMBER()\<close> is the size of the window.
\<close>

definition upto_row :: "'a dated_scheme list \<Rightarrow> 'b dated_scheme \<Rightarrow> 'a dated_scheme list" where
  "upto_row t w = filter (\<lambda>v. SELLER_ID v = SELLER_ID w \<and> DATE_KPI v \<le> DATE_KPI w) t"

definition numbered_row :: "weekly list \<Rightarrow> weekly \<Rightarrow> numbered" where
  "numbered_row t w =
     \<lparr>SELLER_ID = SELLER_ID w, DATE_KPI = DATE_KPI w,
      HAD_APPEARANCE_ISSUE = HAD_APPEARANCE_ISSUE w,
      HAD_DEFECTIVE_ISSUE = HAD_DEFECTIVE_ISSUE w,
      WEEK_NUM_RELATIVE = int (length (upto_row t w))\<rparr>"

definition NumberedWeeks :: "hrow list \<Rightarrow> numbered list" where
  "NumberedWeeks h = map (numbered_row (WeeklyData h)) (WeeklyData h)"

text \<open>
  The group of a week:
  \<open>SUM(CASE WHEN flag = 0 THEN 1 ELSE 0 END) OVER (PARTITION BY SELLER_ID ORDER BY DATE_KPI
  ROWS BETWEEN UNBOUNDED PRECEDING AND CURRENT ROW)\<close>
\<close>

definition run_row :: "metric \<Rightarrow> numbered list \<Rightarrow> numbered \<Rightarrow> run" where
  "run_row m t w =
     \<lparr>SELLER_ID = SELLER_ID w, DATE_KPI = DATE_KPI w,
      HAD_APPEARANCE_ISSUE = HAD_APPEARANCE_ISSUE w,
      HAD_DEFECTIVE_ISSUE = HAD_DEFECTIVE_ISSUE w,
      WEEK_NUM_RELATIVE = WEEK_NUM_RELATIVE w,
      ISSUE_GROUP = sum_list (map (\<lambda>v. if HAD_ISSUE m v = 0 then 1 else 0) (upto_row t w))\<rparr>"

definition Runs :: "metric \<Rightarrow> hrow list \<Rightarrow> run list" where
  "Runs m h = map (run_row m (NumberedWeeks h)) (NumberedWeeks h)"

definition AppearanceRuns :: "hrow list \<Rightarrow> run list" where
  "AppearanceRuns = Runs Appearance"

definition DefectiveRuns :: "hrow list \<Rightarrow> run list" where
  "DefectiveRuns = Runs Defective"

text \<open>
  The weeks with an issue (\<open>WHERE flag = 1\<close>), each with its \<open>ROW_NUMBER()\<close> inside its seller
  and group in date order (the streak length), and its \<open>ROW_NUMBER()\<close> inside its seller in
  reverse date order (the recency rank).
\<close>

definition issue_runs :: "metric \<Rightarrow> hrow list \<Rightarrow> run list" where
  "issue_runs m h = filter (\<lambda>r. HAD_ISSUE m r = 1) (Runs m h)"

definition streak_row :: "run list \<Rightarrow> run \<Rightarrow> streak" where
  "streak_row t r =
     \<lparr>SELLER_ID = SELLER_ID r, DATE_KPI = DATE_KPI r,
      HAD_APPEARANCE_ISSUE = HAD_APPEARANCE_ISSUE r,
      HAD_DEFECTIVE_ISSUE = HAD_DEFECTIVE_ISSUE r,
      WEEK_NUM_RELATIVE = WEEK_NUM_RELATIVE r,
      ISSUE_GROUP = ISSUE_GROUP r,
      STREAK_LENGTH =
        int (length (filter (\<lambda>v. SELLER_ID v = SELLER_ID r \<and> ISSUE_GROUP v = ISSUE_GROUP r
                                 \<and> DATE_KPI v \<le> DATE_KPI r) t)),
      RECENCY_RANK =
        int (length (filter (\<lambda>v. SELLER_ID v = SELLER_ID r \<and> DATE_KPI r \<le> DATE_KPI v) t))\<rparr>"

definition Streaks :: "metric \<Rightarrow> hrow list \<Rightarrow> streak list" where
  "Streaks m h = map (streak_row (issue_runs m h)) (issue_runs m h)"

definition AppearanceStreaks :: "hrow list \<Rightarrow> streak list" where
  "AppearanceStreaks = Streaks Appearance"

definition DefectiveStreaks :: "hrow list \<Rightarrow> streak list" where
  "DefectiveStreaks = Streaks Defective"

definition LatestStreak :: "metric \<Rightarrow> hrow list \<Rightarrow> latest list" where
  "LatestStreak m h =
     map (\<lambda>r. \<lparr>SELLER_ID = SELLER_ID r, DATE_KPI = DATE_KPI r, LATEST_STREAK = STREAK_LENGTH r\<rparr>)
       (filter (\<lambda>r. RECENCY_RANK r = 1) (Streaks m h))"

definition LatestAppearanceStreak :: "hrow list \<Rightarrow> latest list" where
  "LatestAppearanceStreak = LatestStreak Appearance"

definition LatestDefectiveStreak :: "hrow list \<Rightarrow> latest list" where
  "LatestDefectiveStreak = LatestStreak Defective"

text \<open>
  The effective streak of one metric, from the current status and the left-joined latest
  streak (\<open>l.DATE_KPI IS NULL\<close> holds exactly when no row was joined):
  \<open>CASE WHEN cur = 1 AND l.DATE_KPI IS NULL THEN 1 WHEN cur = 1 THEN l.LATEST_STREAK ELSE 0 END\<close>.
\<close>

definition EFFECTIVE_STREAK :: "int \<Rightarrow> latest option \<Rightarrow> int" where
  "EFFECTIVE_STREAK cur l =
     (if cur = 1 then (case l of None \<Rightarrow> 1 | Some r \<Rightarrow> LATEST_STREAK r) else 0)"

definition same_trimmed :: "'a seller_key_scheme \<Rightarrow> 'b seller_key_scheme \<Rightarrow> bool" where
  "same_trimmed a b = (TRIM (SELLER_ID a) = TRIM (SELLER_ID b))"

definition EffectiveStreaks :: "int \<Rightarrow> hrow list \<Rightarrow> es_row list" where
  "EffectiveStreaks today h =
     map (\<lambda>(((ls, cs), las), lds).
            \<lparr>SELLER_ID = SELLER_ID ls, DATE_KPI = DATE_KPI ls,
             CURRENT_DEFECTIVE_STATUS = CURRENT_DEFECTIVE_STATUS cs,
             CURRENT_APPEARANCE_STATUS = CURRENT_APPEARANCE_STATUS cs,
             HISTORICAL_DEFECTIVE_STREAK = COALESCE (map_option LATEST_STREAK lds) 0,
             HISTORICAL_APPEARANCE_STREAK = COALESCE (map_option LATEST_STREAK las) 0,
             EFFECTIVE_DEFECTIVE_STREAK = EFFECTIVE_STREAK (CURRENT_DEFECTIVE_STATUS cs) lds,
             EFFECTIVE_APPEARANCE_STREAK = EFFECTIVE_STREAK (CURRENT_APPEARANCE_STATUS cs) las\<rparr>)
       (left_join
          (left_join
             (inner_join (LatestSellerInfo today h) same_seller_date (CurrentStatus today h))
             (\<lambda>(ls, cs) las. same_trimmed ls las) (LatestAppearanceStreak h))
          (\<lambda>((ls, cs), las) lds. same_trimmed ls lds) (LatestDefectiveStreak h))"

subsection \<open>The email actions\<close>

text \<open>The action of one metric, from its current status and its effective streak.\<close>

definition METRIC_EMAIL_ACTION :: "int \<Rightarrow> int \<Rightarrow> string" where
  "METRIC_EMAIL_ACTION cur eff =
     (if cur = 1 then
        (if eff = 1 then ''Send First Warning''
         else if eff = 4 then ''Send Last Warning''
         else if eff = 5 then ''Send Suspension Notice''
         else ''No Action'')
      else ''No Action'')"

definition defective_action :: "es_row \<Rightarrow> string" where
  "defective_action es =
     METRIC_EMAIL_ACTION (CURRENT_DEFECTIVE_STATUS es) (EFFECTIVE_DEFECTIVE_STREAK es)"

definition appearance_action :: "es_row \<Rightarrow> string" where
  "appearance_action es =
     METRIC_EMAIL_ACTION (CURRENT_APPEARANCE_STATUS es) (EFFECTIVE_APPEARANCE_STREAK es)"

definition final_action :: "es_row \<Rightarrow> string" where
  "final_action es =
     (if (EFFECTIVE_DEFECTIVE_STREAK es = 5 \<and> CURRENT_DEFECTIVE_STATUS es = 1) \<or>
         (EFFECTIVE_APPEARANCE_STREAK es = 5 \<and> CURRENT_APPEARANCE_STATUS es = 1)
      then ''Send Suspension Notice''
      else if (EFFECTIVE_DEFECTIVE_STREAK es = 4 \<and> CURRENT_DEFECTIVE_STATUS es = 1) \<or>
              (EFFECTIVE_APPEARANCE_STREAK es = 4 \<and> CURRENT_APPEARANCE_STATUS es = 1)
      then ''Send Last Warning''
      else if (EFFECTIVE_DEFECTIVE_STREAK es = 1 \<and> CURRENT_DEFECTIVE_STATUS es = 1) \<or>
              (EFFECTIVE_APPEARANCE_STREAK es = 1 \<and> CURRENT_APPEARANCE_STATUS es = 1)
      then ''Send First Warning''
      else ''No Action'')"

definition EmailActions :: "int \<Rightarrow> hrow list \<Rightarrow> ea_row list" where
  "EmailActions today h =
     map (\<lambda>es. \<lparr>SELLER_ID = SELLER_ID es,
                 DEFECTIVE_EMAIL_ACTION = defective_action es,
                 APPEARANCE_EMAIL_ACTION = appearance_action es,
                 FINAL_EMAIL_ACTION = final_action es\<rparr>)
       (EffectiveStreaks today h)"

subsection \<open>The final selection\<close>

text \<open>A row of the final \<open>FROM\<close> clause: a seller with the rows that were left-joined to it.\<close>

record from_row =
  j_ls :: keyed
  j_d30 :: "agg30 option"
  j_a30 :: "agg30 option"
  j_es :: "es_row option"
  j_ea :: "ea_row option"
  j_c :: "contact option"

definition FinalFrom :: "int \<Rightarrow> hrow list \<Rightarrow> contact list \<Rightarrow> from_row list" where
  "FinalFrom today h contacts =
     map (\<lambda>(((((ls, d30), a30), es), ea), c).
            \<lparr>j_ls = ls, j_d30 = d30, j_a30 = a30, j_es = es, j_ea = ea, j_c = c\<rparr>)
       (left_join
          (left_join
             (left_join
                (left_join
                   (left_join (LatestSellerInfo today h) same_seller_date (Defective30D today h))
                   (\<lambda>(ls, d30) a30. same_seller_date ls a30) (Appearance30D today h))
                (\<lambda>((ls, d30), a30) es. SELLER_ID ls = SELLER_ID es) (EffectiveStreaks today h))
             (\<lambda>(((ls, d30), a30), es) ea. SELLER_ID ls = SELLER_ID ea) (EmailActions today h))
          (\<lambda>((((ls, d30), a30), es), ea) c. same_trimmed ls c) contacts)"



text \<open>The selected columns, as functions of the row of the \<open>FROM\<close> clause.\<close>

definition SELLER_ID_out :: "from_row \<Rightarrow> string" where
  "SELLER_ID_out j =
     (let t = TRIM (SELLER_ID (j_ls j))
      in if drop (length t - 2) t = ''AP'' then take (length t - 2) t else t)"

fun j_x30 :: "metric \<Rightarrow> from_row \<Rightarrow> agg30 option" where
  "j_x30 Defective j = j_d30 j"
| "j_x30 Appearance j = j_a30 j"

text \<open>\<open>DEFECTIVE_RATE_30D\<close> and \<open>APPEARANCE_ISSUE_RATE_30D\<close>\<close>

definition RATE_30D_out :: "metric \<Rightarrow> from_row \<Rightarrow> rat" where
  "RATE_30D_out m j = COALESCE (Option.bind (j_x30 m j) ISSUE_RATE_30D) 0"

text \<open>\<open>NB_DEFECTIVE_30D\<close> and \<open>NB_APPEARANCE_ISSUE_30D\<close>\<close>

definition NB_30D_out :: "metric \<Rightarrow> from_row \<Rightarrow> int" where
  "NB_30D_out m j = COALESCE (Option.bind (j_x30 m j) NB_ISSUE_30D) 0"

definition CONSECUTIVE_DEFECTIVE_WEEKS :: "from_row \<Rightarrow> int option" where
  "CONSECUTIVE_DEFECTIVE_WEEKS j = map_option EFFECTIVE_DEFECTIVE_STREAK (j_es j)"

definition CONSECUTIVE_APPEARANCE_WEEKS :: "from_row \<Rightarrow> int option" where
  "CONSECUTIVE_APPEARANCE_WEEKS j = map_option EFFECTIVE_APPEARANCE_STREAK (j_es j)"

text \<open>\<open>DEFECTIVE_30D_LABEL\<close> and \<open>APPEARANCE_ISSUE_LABEL\<close>\<close>

fun es_current :: "metric \<Rightarrow> es_row \<Rightarrow> int" where
  "es_current Defective es = CURRENT_DEFECTIVE_STATUS es"
| "es_current Appearance es = CURRENT_APPEARANCE_STATUS es"

fun es_historical :: "metric \<Rightarrow> es_row \<Rightarrow> int" where
  "es_historical Defective es = HISTORICAL_DEFECTIVE_STREAK es"
| "es_historical Appearance es = HISTORICAL_APPEARANCE_STREAK es"


definition LABEL_out :: "metric \<Rightarrow> from_row \<Rightarrow> string" where
  "LABEL_out m j =
     (if map_option (es_current m) (j_es j) = Some 1 \<and> critical_threshold m < RATE_30D_out m j
      then ''Critical''
      else if map_option (es_current m) (j_es j) = Some 1 then ''Alerting''
      else if (case j_es j of None \<Rightarrow> False | Some es \<Rightarrow> 0 < es_historical m es)
      then ''Historical''
      else [])"

definition FINAL_EMAIL_ACTION_out :: "from_row \<Rightarrow> string option" where
  "FINAL_EMAIL_ACTION_out j = map_option FINAL_EMAIL_ACTION (j_ea j)"

definition EMAIL_out :: "from_row \<Rightarrow> string option" where
  "EMAIL_out j = Option.bind (j_c j) EMAIL"

subsection \<open>The policy in the words of the specification\<close>



text \<open>Some metric has a streak of \<open>k\<close> and is currently failing.\<close>

definition streak_hit :: "int \<Rightarrow> es_row \<Rightarrow> bool" where
  "streak_hit k es =
     ((EFFECTIVE_DEFECTIVE_STREAK es = k \<and> CURRENT_DEFECTIVE_STATUS es = 1) \<or>
      (EFFECTIVE_APPEARANCE_STREAK es = k \<and> CURRENT_APPEARANCE_STATUS es = 1))"

text \<open>The priority table: the first entry that is hit gives the action.\<close>

definition priority_table :: "(int \<times> string) list" where
  "priority_table =
     [(5, ''Send Suspension Notice''), (4, ''Send Last Warning''), (1, ''Send First Warning'')]"

definition resolve_by_priority :: "es_row \<Rightarrow> string" where
  "resolve_by_priority es =
     (case find (\<lambda>(k, a). streak_hit k es) priority_table of
        Some (k, a) \<Rightarrow> a
      | None \<Rightarrow> ''No Action'')"

section \<open>The notification script (Apps Script)\<close>

text \<open>
  The script works on the sheets of one spreadsheet, on the mail transport and on the clock.
  The embedding passes them explicitly: a \<open>world\<close> holds the sheets, the mails handed to the
  transport and the number of UUIDs drawn; a \<open>platform\<close> holds what the hosting platform
  decides (which UUID comes next, which template files exist, which recipients the transport
  accepts); the formatted current time is an argument \<open>now\<close>, read once for an invocation.
  A value of a sheet cell is a string, an integer number or the number NaN; an empty cell
  reads as the empty string.  Rendering a template is taken to succeed, and the rendered text
  is represented by the name of the template and the data it was filled with.
\<close>

subsection \<open>Values\<close>

datatype cell = Str string | Num int | NaN

text \<open>Truthiness, as \<open>x || y\<close> and \<open>if (x)\<close> test it.\<close>

fun truthy :: "cell \<Rightarrow> bool" where
  "truthy (Str s) = (s \<noteq> [])"
| "truthy (Num n) = (n \<noteq> 0)"
| "truthy NaN = False"

definition js_or :: "cell \<Rightarrow> cell \<Rightarrow> cell" where
  "js_or x y = (if truthy x then x else y)"

definition digit_char :: "nat \<Rightarrow> char" where
  "digit_char d = char_of (48 + d)"

fun decimal :: "nat \<Rightarrow> string" where
  "decimal n = (if n < 10 then [digit_char n] else decimal (n div 10) @ [digit_char (n mod 10)])"

declare decimal.simps [simp del]


text \<open>\<open>s.trim()\<close>\<close>

definition trim :: "string \<Rightarrow> string" where
  "trim s = rev (dropWhile is_space (rev (dropWhile is_space s)))"

definition is_digit :: "char \<Rightarrow> bool" where
  "is_digit c = (48 \<le> (of_char c :: nat) \<and> (of_char c :: nat) \<le> 57)"

definition digits_value :: "string \<Rightarrow> int" where
  "digits_value ds = foldl (\<lambda>v c. 10 * v + (int (of_char c) - 48)) 0 ds"

text \<open>
  \<open>Number(x)\<close>.  A string is trimmed; the empty string is 0, a decimal integer with an optional
  sign is its value, and every other string is NaN (the other numeric notations of the
  language denote no seller id and are not modelled).
\<close>

definition number_of_string :: "string \<Rightarrow> cell" where
  "number_of_string s =
     (let t = trim s;
          ds = (if t \<noteq> [] \<and> (hd t = CHR ''-'' \<or> hd t = CHR ''+'') then tl t else t)
      in if t = [] then Num 0
         else if ds \<noteq> [] \<and> list_all is_digit ds
         then Num (if hd t = CHR ''-'' then - digits_value ds else digits_value ds)
         else NaN)"

fun Number_js :: "cell \<Rightarrow> cell" where
  "Number_js (Str s) = number_of_string s"
| "Number_js (Num n) = Num n"
| "Number_js NaN = NaN"

text \<open>\<open>x === y\<close>: values of the same type that are equal; NaN equals nothing.\<close>

fun strict_eq :: "cell \<Rightarrow> cell \<Rightarrow> bool" where
  "strict_eq (Str a) (Str b) = (a = b)"
| "strict_eq (Num a) (Num b) = (a = b)"
| "strict_eq _ _ = False"

text \<open>\<open>s.split(',')\<close>\<close>

fun split_comma :: "string \<Rightarrow> string list" where
  "split_comma [] = [[]]"
| "split_comma (c # cs) =
     (if c = CHR '','' then [] # split_comma cs
      else (case split_comma cs of [] \<Rightarrow> [[c]] | w # ws \<Rightarrow> (c # w) # ws))"

subsection \<open>Sheets\<close>

type_synonym sheet = "cell list list"

text \<open>\<open>data[i][k]\<close> of \<open>getValues()\<close>; a cell outside the row reads as empty.\<close>

definition cell_at :: "cell list \<Rightarrow> nat \<Rightarrow> cell" where
  "cell_at row k = (if k < length row then row ! k else Str [])"

definition pad_to :: "nat \<Rightarrow> 'a \<Rightarrow> 'a list \<Rightarrow> 'a list" where
  "pad_to n x xs = xs @ replicate (n - length xs) x"

text \<open>
  \<open>getRange(r, c).setValue(v)\<close>, with the row \<open>r\<close> and the column \<open>c\<close> counted from 1; a cell
  outside the data is created, with empty cells before it.
\<close>

definition setValue :: "nat \<Rightarrow> nat \<Rightarrow> cell \<Rightarrow> sheet \<Rightarrow> sheet" where
  "setValue r c v sh =
     (let rows = pad_to r [] sh
      in rows[r - 1 := (pad_to c (Str []) (rows ! (r - 1)))[c - 1 := v]])"

definition appendRow :: "cell list \<Rightarrow> sheet \<Rightarrow> sheet" where
  "appendRow row sh = sh @ [row]"

subsection \<open>Configuration\<close>

datatype tier = FIRST_WARNING | LAST_WARNING | SUSPENSION

fun EMAIL_TEMPLATES :: "tier \<Rightarrow> string" where
  "EMAIL_TEMPLATES FIRST_WARNING = ''email_first_warning''"
| "EMAIL_TEMPLATES LAST_WARNING = ''email_last_warning''"
| "EMAIL_TEMPLATES SUSPENSION = ''email_suspension''"

fun TRACKING_SHEETS :: "tier \<Rightarrow> string" where
  "TRACKING_SHEETS FIRST_WARNING = ''First Warning Log''"
| "TRACKING_SHEETS LAST_WARNING = ''Last Warning Log''"
| "TRACKING_SHEETS SUSPENSION = ''Suspension Log''"

definition TRACKING_SHEETS_MAIN :: string where
  "TRACKING_SHEETS_MAIN = ''Email Tracking''"

text \<open>The \<open>switch\<close> on the action, in \<open>sendQualityNotification\<close> and \<open>updateSellerResponseStatus\<close>.\<close>

definition tier_of_action :: "string \<Rightarrow> tier option" where
  "tier_of_action a =
     (if a = ''Send First Warning'' then Some FIRST_WARNING
      else if a = ''Send Last Warning'' then Some LAST_WARNING
      else if a = ''Send Suspension Notice'' then Some SUSPENSION
      else None)"

definition main_header :: "cell list" where
  "main_header = map Str [''Tracking ID'', ''Email Address'', ''Seller ID'', ''Email Type'',
     ''Send Date/Time'', ''Open Date/Time'', ''Email Opened'', ''View Count'']"

definition log_header :: "cell list" where
  "log_header = map Str [''Seller ID'', ''Seller Name'', ''Email Address'', ''Defective Rate'',
     ''Defective Status'', ''Appearance Rate'', ''Appearance Status'',
     ''Consecutive Defective Weeks'', ''Consecutive Appearance Weeks'', ''Send Date/Time'',
     ''Response Date/Time'', ''Response Received'', ''Resolution Status'', ''Notes'']"

subsection \<open>The world\<close>

text \<open>A mail handed to the transport: the recipient, and what the subject and body are made of.\<close>

record mail =
  mail_to :: string
  mail_subject :: tier
  mail_seller_name :: cell
  mail_template :: string
  mail_pixel :: string

record world =
  sheets :: "string \<Rightarrow> sheet option"
  outbox :: "mail list"
  uuids_drawn :: nat

record platform =
  uuid_of :: "nat \<Rightarrow> string"
  template_file :: "string \<Rightarrow> bool"
  mail_accepted :: "string \<Rightarrow> bool"

text \<open>The fields of the object of \<open>extractRowData\<close> that the dispatcher reads.\<close>

record seller_data =
  sellerId :: cell
  sellerName :: cell
  sellerEmail :: cell
  finalEmailAction :: string
  defectiveRate :: cell
  defectiveLabel :: cell
  appearanceRate :: cell
  appearanceLabel :: cell
  consecutiveDefectiveWeeks :: cell
  consecutiveAppearanceWeeks :: cell

text \<open>\<open>getSheetByName(name)\<close>, or the sheet that \<open>insertSheet\<close> and the header row create.\<close>

definition sheet_or_new :: "world \<Rightarrow> string \<Rightarrow> cell list \<Rightarrow> sheet" where
  "sheet_or_new w name header = (case sheets w name of None \<Rightarrow> appendRow header [] | Some sh \<Rightarrow> sh)"

definition put_sheet :: "string \<Rightarrow> sheet \<Rightarrow> world \<Rightarrow> world" where
  "put_sheet name sh w = w\<lparr>sheets := (sheets w)(name \<mapsto> sh)\<rparr>"

subsection \<open>Email.gs\<close>

text \<open>\<open>isValidEmail\<close> (Core.gs): the test of \<open>/^[^\s@]+@[^\s@]+\.[^\s@]+$/\<close>.\<close>

definition plain_part :: "string \<Rightarrow> bool" where
  "plain_part s = (s \<noteq> [] \<and> list_all (\<lambda>c. \<not> is_space c \<and> c \<noteq> CHR ''@'') s)"

definition isValidEmail :: "string \<Rightarrow> bool" where
  "isValidEmail email =
     (let a = takeWhile (\<lambda>c. c \<noteq> CHR ''@'') email;
          rest = dropWhile (\<lambda>c. c \<noteq> CHR ''@'') email
      in plain_part a \<and>
         (case rest of
            [] \<Rightarrow> False
          | c0 # d \<Rightarrow> plain_part d \<and> CHR ''.'' \<in> set (butlast (tl d))))"

text \<open>The row of a TrackingRecord, as \<open>recordTrackingId\<close> appends it.\<close>

definition tracking_row :: "string \<Rightarrow> cell \<Rightarrow> cell \<Rightarrow> string \<Rightarrow> string \<Rightarrow> cell list" where
  "tracking_row trackingId email sid emailAction now =
     [Str trackingId, email, sid, Str emailAction, Str now, Str [], Str ''No'', Num 0]"

definition recordTrackingId :: "string \<Rightarrow> cell \<Rightarrow> cell \<Rightarrow> string \<Rightarrow> string \<Rightarrow> world \<Rightarrow> world" where
  "recordTrackingId trackingId email sid emailAction now w =
     put_sheet TRACKING_SHEETS_MAIN
       (appendRow (tracking_row trackingId email sid emailAction now)
          (sheet_or_new w TRACKING_SHEETS_MAIN main_header)) w"

text \<open>The result is the tracking id that the pixel carries.\<close>

definition generateTrackingPixel ::
  "platform \<Rightarrow> string \<Rightarrow> cell \<Rightarrow> cell \<Rightarrow> string \<Rightarrow> world \<Rightarrow> string \<times> world" where
  "generateTrackingPixel P now email sid emailAction w =
     (let trackingId = uuid_of P (uuids_drawn w)
      in (trackingId,
          recordTrackingId trackingId email sid emailAction now
            (w\<lparr>uuids_drawn := Suc (uuids_drawn w)\<rparr>)))"

text \<open>The row of a ResponseRecord, as \<open>recordEmailInTrackingSheet\<close> appends it.\<close>

definition response_row :: "seller_data \<Rightarrow> string \<Rightarrow> string \<Rightarrow> cell list" where
  "response_row d now email =
     [sellerId d, sellerName d, Str email, defectiveRate d, defectiveLabel d,
      appearanceRate d, appearanceLabel d, consecutiveDefectiveWeeks d,
      consecutiveAppearanceWeeks d, Str now, Str [], Str ''No'', Str ''Pending'', Str []]"

definition recordEmailInTrackingSheet :: "string \<Rightarrow> seller_data \<Rightarrow> string \<Rightarrow> string \<Rightarrow> world \<Rightarrow> world" where
  "recordEmailInTrackingSheet sheetName d email now w =
     put_sheet sheetName
       (appendRow (response_row d now email) (sheet_or_new w sheetName log_header)) w"

text \<open>
  The loop over the recipients, with the count of mails sent so far.  A recipient that the
  transport refuses raises, and the \<open>catch\<close> of \<open>sendQualityNotification\<close> returns false.
\<close>

fun send_each :: "platform \<Rightarrow> string \<Rightarrow> tier \<Rightarrow> mail \<Rightarrow> seller_data \<Rightarrow> string list \<Rightarrow> nat \<Rightarrow> world
                  \<Rightarrow> bool \<times> world" where
  "send_each P now t m d [] successCount w = (0 < successCount, w)"
| "send_each P now t m d (email # rest) successCount w =
     (if isValidEmail email then
        (if mail_accepted P email then
           send_each P now t m d rest (Suc successCount)
             (recordEmailInTrackingSheet (TRACKING_SHEETS t) d email now
                (w\<lparr>outbox := outbox w @ [m\<lparr>mail_to := email\<rparr>]\<rparr>))
         else (False, w))
      else send_each P now t m d rest successCount w)"

definition sendQualityNotification :: "platform \<Rightarrow> string \<Rightarrow> seller_data \<Rightarrow> world \<Rightarrow> bool \<times> world" where
  "sendQualityNotification P now d w =
     (case tier_of_action (finalEmailAction d) of
        None \<Rightarrow> (False, w)
      | Some t \<Rightarrow>
          (if \<not> template_file P (EMAIL_TEMPLATES t) \<and> \<not> template_file P (EMAIL_TEMPLATES FIRST_WARNING)
           then (False, w)
           else
             (let template = (if template_file P (EMAIL_TEMPLATES t) then EMAIL_TEMPLATES t
                              else EMAIL_TEMPLATES FIRST_WARNING);
                  (trackingId, w1) = generateTrackingPixel P now (sellerEmail d) (sellerId d)
                                       (finalEmailAction d) w
              in (case sellerEmail d of
                    Str addresses \<Rightarrow>
                      send_each P now t
                        \<lparr>mail_to = [], mail_subject = t, mail_seller_name = sellerName d,
                         mail_template = template, mail_pixel = trackingId\<rparr>
                        d (map trim (split_comma addresses)) 0 w1
                  | _ \<Rightarrow> (False, w1)))))"

text \<open>
  \<open>recordEmailOpen\<close>.  The first row after the header whose tracking id is \<open>trackingId\<close>,
  counted from 0 as \<open>i\<close> in the loop.
\<close>

fun find_row :: "(cell list \<Rightarrow> bool) \<Rightarrow> nat \<Rightarrow> sheet \<Rightarrow> nat option" where
  "find_row p i [] = None"
| "find_row p i (row # rows) = (if p row then Some i else find_row p (Suc i) rows)"

definition recordEmailOpen :: "string \<Rightarrow> string \<Rightarrow> world \<Rightarrow> world" where
  "recordEmailOpen trackingId now w =
     (case sheets w TRACKING_SHEETS_MAIN of
        None \<Rightarrow> w
      | Some data \<Rightarrow>
          (case find_row (\<lambda>row. strict_eq (cell_at row 0) (Str trackingId)) 1 (tl data) of
             None \<Rightarrow> w
           | Some i \<Rightarrow>
               (if strict_eq (cell_at (data ! i) 6) (Str ''No'')
                then put_sheet TRACKING_SHEETS_MAIN
                       (setValue (i + 1) 8 (Num 1)
                          (setValue (i + 1) 7 (Str ''Yes'')
                             (setValue (i + 1) 6 (Str now) data))) w
                else put_sheet TRACKING_SHEETS_MAIN
                       (setValue (i + 1) 8
                          (case Number_js (js_or (cell_at (data ! i) 7) (Num 0)) of
                             Num currentViews \<Rightarrow> Num (currentViews + 1)
                           | _ \<Rightarrow> NaN)
                          data) w)))"



subsection \<open>UI.gs\<close>




subsection \<open>Counting forms of the window functions\<close>

text \<open>
  The group, the streak length and the recency rank of a week, counted on \<open>WeeklyData\<close>; the
  rows of \<open>LatestStreak\<close> are shown below to carry these numbers.
\<close>

definition week_group :: "metric \<Rightarrow> hrow list \<Rightarrow> weekly \<Rightarrow> nat" where
  "week_group m h w = length (filter (\<lambda>v. HAD_ISSUE m v = 0) (upto_row (WeeklyData h) w))"




definition week_run :: "metric \<Rightarrow> hrow list \<Rightarrow> weekly \<Rightarrow> run" where
  "week_run m h w = run_row m (NumberedWeeks h) (numbered_row (WeeklyData h) w)"






section \<open>Example inputs\<close>

definition es_4_5 :: es_row where
  "es_4_5 = \<lparr>SELLER_ID = ''1042'', DATE_KPI = 20402,
     CURRENT_DEFECTIVE_STATUS = 1, CURRENT_APPEARANCE_STATUS = 1,
     HISTORICAL_DEFECTIVE_STREAK = 4, HISTORICAL_APPEARANCE_STREAK = 5,
     EFFECTIVE_DEFECTIVE_STREAK = 4, EFFECTIVE_APPEARANCE_STREAK = 5\<rparr>"


definition jp_row :: "string \<Rightarrow> int \<Rightarrow> int \<Rightarrow> int \<Rightarrow> int \<Rightarrow> hrow" where
  "jp_row s d nd na del =
     \<lparr>SELLER_ID = s, DATE_KPI = d, MARKET = ''JP'', NB_DEFECTIVE_ISSUE = Some nd,
      NB_APPEARANCE_ISSUE = Some na, NB_ORDERLINE_DELIVERED_30D = Some del\<rparr>"

text \<open>Seller 1042 fails the defective threshold in weeks 1, 2, 4 and 5 of five weeks.\<close>

definition h_ex :: "hrow list" where
  "h_ex = [jp_row ''1042'' 20157 5 0 100, jp_row ''1042'' 20164 5 0 100,
           jp_row ''1042'' 20171 0 0 100, jp_row ''1042'' 20178 5 3 100,
           jp_row ''1042'' 20185 4 3 100, jp_row ''2077'' 20185 4 3 0]"





definition contacts_ex :: "contact list" where
  "contacts_ex = [\<lparr>SELLER_ID = ''1042'', EMAIL = Some ''ops@shop.example''\<rparr>,
                  \<lparr>SELLER_ID = ''3001'', EMAIL = Some ''sales@store.example''\<rparr>]"

text \<open>The week of seller 2077 in \<open>h_ex\<close>: four defective issues, nothing delivered.\<close>

definition w_zero :: weekly where
  "w_zero = \<lparr>SELLER_ID = ''2077'', DATE_KPI = 20185, HAD_APPEARANCE_ISSUE = 0, HAD_DEFECTIVE_ISSUE = 0\<rparr>"

text \<open>A platform with every template and a transport that accepts every recipient.\<close>

definition P_ex :: platform where
  "P_ex = \<lparr>uuid_of = (\<lambda>n. ''uuid-'' @ decimal n), template_file = (\<lambda>name. True),
            mail_accepted = (\<lambda>email. True)\<rparr>"

text \<open>A seller with two valid addresses and one invalid address, due a last warning.\<close>

definition d_ex :: seller_data where
  "d_ex = \<lparr>sellerId = Num 1042, sellerName = Str ''Shop'',
            sellerEmail = Str ''a@shop.example, bad, b@shop.example'',
            finalEmailAction = ''Send Last Warning'',
            defectiveRate = Str ''0.05'', defectiveLabel = Str ''Critical'',
            appearanceRate = Num 0, appearanceLabel = Str [],
            consecutiveDefectiveWeeks = Num 4, consecutiveAppearanceWeeks = Num 0\<rparr>"

definition w_empty :: world where
  "w_empty = \<lparr>sheets = Map.empty, outbox = [], uuids_drawn = 0\<rparr>"

text \<open>The world after the notification of \<open>d_ex\<close> at time \<open>t0\<close>.\<close>

definition w_sent :: world where
  "w_sent = snd (sendQualityNotification P_ex ''2025/04/21 09:00:00'' d_ex w_empty)"



section \<open>Verified properties\<close>

subsection \<open>Window functions as counts\<close>

lemma numbered_row_sel [simp]:
  "SELLER_ID (numbered_row t w) = SELLER_ID w"
  "DATE_KPI (numbered_row t w) = DATE_KPI w"
  "HAD_ISSUE m (numbered_row t w) = HAD_ISSUE m w"
  by (cases m; simp add: numbered_row_def)+

lemma run_row_sel [simp]:
  "SELLER_ID (run_row m t w) = SELLER_ID w"
  "DATE_KPI (run_row m t w) = DATE_KPI w"
  "HAD_ISSUE m' (run_row m t w) = HAD_ISSUE m' w"
  by (cases m'; simp add: run_row_def)+

lemma upto_row_map:
  assumes "\<And>v. SELLER_ID (f v) = SELLER_ID v" and "\<And>v. DATE_KPI (f v) = DATE_KPI v"
  shows "upto_row (map f t) w = map f (upto_row t w)"
  by (simp add: upto_row_def filter_map comp_def assms)

lemma upto_row_cong:
  "SELLER_ID w' = SELLER_ID w \<Longrightarrow> DATE_KPI w' = DATE_KPI w \<Longrightarrow> upto_row t w' = upto_row t w"
  by (simp add: upto_row_def)

lemma sum_list_indicator:
  "sum_list (map (\<lambda>v. if c v then 1 else 0) xs) = int (length (filter c xs))"
  by (induction xs) simp_all

lemma ISSUE_GROUP_run_row:
  "ISSUE_GROUP (run_row m (NumberedWeeks h) (numbered_row (WeeklyData h) w)) = int (week_group m h w)"
proof -
  have "upto_row (NumberedWeeks h) (numbered_row (WeeklyData h) w)
        = map (numbered_row (WeeklyData h)) (upto_row (WeeklyData h) w)"
    unfolding NumberedWeeks_def
    by (simp add: upto_row_map upto_row_cong[of "numbered_row (WeeklyData h) w" w])
  then show ?thesis
    by (simp add: run_row_def sum_list_indicator week_group_def filter_map comp_def)
qed

lemma week_run_sel [simp]:
  "SELLER_ID (week_run m h w) = SELLER_ID w"
  "DATE_KPI (week_run m h w) = DATE_KPI w"
  "HAD_ISSUE m' (week_run m h w) = HAD_ISSUE m' w"
  "ISSUE_GROUP (week_run m h w) = int (week_group m h w)"
  by (simp_all add: week_run_def ISSUE_GROUP_run_row)





lemma streak_row_keys [simp]:
  "SELLER_ID (streak_row t r) = SELLER_ID r"
  "DATE_KPI (streak_row t r) = DATE_KPI r"
  by (simp_all add: streak_row_def)


subsection \<open>The streak of a sorted series\<close>





subsection \<open>The weeks of one seller\<close>












subsection \<open>Joins\<close>

lemma in_left_join:
  "(x, y) \<in> set (left_join xs on ys) \<longleftrightarrow>
     x \<in> set xs \<and> (case y of None \<Rightarrow> (\<forall>z \<in> set ys. \<not> on x z) | Some z \<Rightarrow> z \<in> set ys \<and> on x z)"
  by (cases y) (auto simp: left_join_def Let_def filter_empty_conv split: if_splits)


subsection \<open>The current status is the flag of the evaluation week\<close>


lemma in_LatestSellerInfo:
  "ls \<in> set (LatestSellerInfo today h) \<longleftrightarrow>
     (\<exists>r \<in> set h. MARKET r = ''JP'' \<and> DATE_KPI r = data_date today
        \<and> ls = \<lparr>SELLER_ID = SELLER_ID r, DATE_KPI = data_date today, MARKET = ''JP''\<rparr>)"
  by (auto simp: LatestSellerInfo_def)

lemma LatestSellerInfo_same_seller:
  assumes "a \<in> set (LatestSellerInfo today h)" "b \<in> set (LatestSellerInfo today h)"
    and "SELLER_ID a = SELLER_ID b"
  shows "a = b"
  using assms by (auto simp: in_LatestSellerInfo)

lemma rows30_nonempty:
  assumes "ls \<in> set (LatestSellerInfo today h)"
  shows "rows30 h ls \<noteq> []"
proof -
  obtain r where r: "r \<in> set h" "MARKET r = ''JP''" "DATE_KPI r = data_date today"
    and ls: "ls = \<lparr>SELLER_ID = SELLER_ID r, DATE_KPI = data_date today, MARKET = ''JP''\<rparr>"
    using assms by (auto simp: in_LatestSellerInfo)
  have "r \<in> set (rows30 h ls)" using r ls by (simp add: rows30_def)
  then show ?thesis by auto
qed


lemma in_Metrics30D:
  "x \<in> set (Metrics30D m today h) \<longleftrightarrow>
     (\<exists>ls \<in> set (LatestSellerInfo today h). x = agg30_row m h ls)"
  using rows30_nonempty[of _ today h]
  by (auto simp: Metrics30D_def split: if_splits)

lemma joined_x30:
  assumes ls: "ls \<in> set (LatestSellerInfo today h)"
    and j: "case x of None \<Rightarrow> (\<forall>z \<in> set (Metrics30D m today h). \<not> same_seller_date ls z)
                     | Some z \<Rightarrow> z \<in> set (Metrics30D m today h) \<and> same_seller_date ls z"
  shows "x = Some (agg30_row m h ls)"
proof (cases x)
  case None
  have "agg30_row m h ls \<in> set (Metrics30D m today h)" using ls by (auto simp: in_Metrics30D)
  moreover have "same_seller_date ls (agg30_row m h ls)"
    by (simp add: same_seller_date_def agg30_row_def)
  ultimately show ?thesis using j None by auto
next
  case (Some z)
  then obtain ls' where ls': "ls' \<in> set (LatestSellerInfo today h)" "z = agg30_row m h ls'"
    and s: "same_seller_date ls z"
    using j by (auto simp: in_Metrics30D)
  have "SELLER_ID ls = SELLER_ID ls'" using s ls'(2) by (simp add: same_seller_date_def agg30_row_def)
  then have "ls = ls'" using LatestSellerInfo_same_seller[OF ls ls'(1)] by simp
  then show ?thesis using Some ls'(2) by simp
qed

lemma sql_when_and: "sql_when (sql_and a b) \<longleftrightarrow> a = Some True \<and> b = Some True"
  by (auto simp: sql_when_def sql_and_def)

lemma alert_threshold_pos: "0 < alert_threshold m"
  by (cases m) simp_all

lemma CURRENT_STATUS_WEEK_FLAG:
  "CURRENT_STATUS m (Some (agg30_row m h ls))
   = WEEK_FLAG m (sql_SUM (map (NB_ISSUE m) (rows30 h ls)))
       (sql_SUM (map NB_ORDERLINE_DELIVERED_30D (rows30 h ls)))"
  using alert_threshold_pos[of m]
  by (auto simp: CURRENT_STATUS_def WEEK_FLAG_def sql_when_and agg30_row_def sql_ge_def sql_gt_def
      COALESCE_def split: option.splits)

lemma in_CurrentStatus:
  assumes "c \<in> set (CurrentStatus today h)"
  shows "\<exists>ls \<in> set (LatestSellerInfo today h).
           c = \<lparr>SELLER_ID = SELLER_ID ls, DATE_KPI = DATE_KPI ls,
                 CURRENT_DEFECTIVE_STATUS = CURRENT_STATUS Defective (Some (agg30_row Defective h ls)),
                 CURRENT_APPEARANCE_STATUS = CURRENT_STATUS Appearance (Some (agg30_row Appearance h ls))\<rparr>"
proof -
  from assms obtain ls d30 a30 where
    j2: "((ls, d30), a30) \<in> set (left_join
          (left_join (LatestSellerInfo today h) same_seller_date (Defective30D today h))
          (\<lambda>(ls, d30) a30. same_seller_date ls a30) (Appearance30D today h))"
    and c: "c = \<lparr>SELLER_ID = SELLER_ID ls, DATE_KPI = DATE_KPI ls,
             CURRENT_DEFECTIVE_STATUS = CURRENT_STATUS Defective d30,
             CURRENT_APPEARANCE_STATUS = CURRENT_STATUS Appearance a30\<rparr>"
    unfolding CurrentStatus_def by auto
  from j2 have j1: "(ls, d30) \<in> set (left_join (LatestSellerInfo today h) same_seller_date (Defective30D today h))"
    and ja: "case a30 of None \<Rightarrow> (\<forall>z \<in> set (Appearance30D today h). \<not> same_seller_date ls z)
                     | Some z \<Rightarrow> z \<in> set (Appearance30D today h) \<and> same_seller_date ls z"
    by (auto simp: in_left_join split: option.splits)
  from j1 have ls: "ls \<in> set (LatestSellerInfo today h)"
    and jd: "case d30 of None \<Rightarrow> (\<forall>z \<in> set (Defective30D today h). \<not> same_seller_date ls z)
                     | Some z \<Rightarrow> z \<in> set (Defective30D today h) \<and> same_seller_date ls z"
    by (auto simp: in_left_join split: option.splits)
  have "d30 = Some (agg30_row Defective h ls)"
    using jd unfolding Defective30D_def by (rule joined_x30[OF ls])
  moreover have "a30 = Some (agg30_row Appearance h ls)"
    using ja unfolding Appearance30D_def by (rule joined_x30[OF ls])
  ultimately show ?thesis using ls c by blast
qed







subsection \<open>The final selection and the guarded ratio\<close>

lemma in_FinalFrom:
  assumes "j \<in> set (FinalFrom today h contacts)"
  shows "j_ls j \<in> set (LatestSellerInfo today h)
         \<and> j_d30 j = Some (agg30_row Defective h (j_ls j))
         \<and> j_a30 j = Some (agg30_row Appearance h (j_ls j))
         \<and> (case j_es j of None \<Rightarrow> True
             | Some es \<Rightarrow> es \<in> set (EffectiveStreaks today h) \<and> SELLER_ID (j_ls j) = SELLER_ID es)"
proof -
  from assms obtain ls d30 a30 es ea c where
    j5: "(((((ls, d30), a30), es), ea), c) \<in> set (left_join
          (left_join
             (left_join
                (left_join
                   (left_join (LatestSellerInfo today h) same_seller_date (Defective30D today h))
                   (\<lambda>(ls, d30) a30. same_seller_date ls a30) (Appearance30D today h))
                (\<lambda>((ls, d30), a30) es. SELLER_ID ls = SELLER_ID es) (EffectiveStreaks today h))
             (\<lambda>(((ls, d30), a30), es) ea. SELLER_ID ls = SELLER_ID ea) (EmailActions today h))
          (\<lambda>((((ls, d30), a30), es), ea) c. same_trimmed ls c) contacts)"
    and j: "j = \<lparr>j_ls = ls, j_d30 = d30, j_a30 = a30, j_es = es, j_ea = ea, j_c = c\<rparr>"
    unfolding FinalFrom_def by auto
  from j5 have j4: "((((ls, d30), a30), es), ea) \<in> set (left_join
             (left_join
                (left_join
                   (left_join (LatestSellerInfo today h) same_seller_date (Defective30D today h))
                   (\<lambda>(ls, d30) a30. same_seller_date ls a30) (Appearance30D today h))
                (\<lambda>((ls, d30), a30) es. SELLER_ID ls = SELLER_ID es) (EffectiveStreaks today h))
             (\<lambda>(((ls, d30), a30), es) ea. SELLER_ID ls = SELLER_ID ea) (EmailActions today h))"
    by (simp add: in_left_join)
  then have j3: "(((ls, d30), a30), es) \<in> set (left_join
                (left_join
                   (left_join (LatestSellerInfo today h) same_seller_date (Defective30D today h))
                   (\<lambda>(ls, d30) a30. same_seller_date ls a30) (Appearance30D today h))
                (\<lambda>((ls, d30), a30) es. SELLER_ID ls = SELLER_ID es) (EffectiveStreaks today h))"
    by (simp add: in_left_join)
  then have j2: "((ls, d30), a30) \<in> set (left_join
                   (left_join (LatestSellerInfo today h) same_seller_date (Defective30D today h))
                   (\<lambda>(ls, d30) a30. same_seller_date ls a30) (Appearance30D today h))"
    and je: "case es of None \<Rightarrow> True
             | Some e \<Rightarrow> e \<in> set (EffectiveStreaks today h) \<and> SELLER_ID ls = SELLER_ID e"
    by (auto simp: in_left_join split: option.splits)
  from j2 have j1: "(ls, d30) \<in> set (left_join (LatestSellerInfo today h) same_seller_date (Defective30D today h))"
    and ja: "case a30 of None \<Rightarrow> (\<forall>z \<in> set (Appearance30D today h). \<not> same_seller_date ls z)
                     | Some z \<Rightarrow> z \<in> set (Appearance30D today h) \<and> same_seller_date ls z"
    by (auto simp: in_left_join split: option.splits)
  from j1 have ls: "ls \<in> set (LatestSellerInfo today h)"
    and jd: "case d30 of None \<Rightarrow> (\<forall>z \<in> set (Defective30D today h). \<not> same_seller_date ls z)
                     | Some z \<Rightarrow> z \<in> set (Defective30D today h) \<and> same_seller_date ls z"
    by (auto simp: in_left_join split: option.splits)
  have "d30 = Some (agg30_row Defective h ls)"
    using jd unfolding Defective30D_def by (rule joined_x30[OF ls])
  moreover have "a30 = Some (agg30_row Appearance h ls)"
    using ja unfolding Appearance30D_def by (rule joined_x30[OF ls])
  ultimately show ?thesis using ls je j by (auto split: option.splits)
qed

lemma RATE_zero_delivered: "RATE_checked issues (Some 0) = Inr None" "RATE issues (Some 0) = None"
  by (simp_all add: RATE_def RATE_checked_def NULLIF_def sql_div_def ROUND6_def split: option.splits)

lemma RATE_never_raises: "RATE_checked issues delivered = Inr (RATE issues delivered)"
  by (auto simp: RATE_def RATE_checked_def NULLIF_def sql_div_def split: option.splits sum.splits)

lemma WEEK_FLAG_zero_delivered: "WEEK_FLAG m issues (Some 0) = 0"
  by (simp add: WEEK_FLAG_def RATE_zero_delivered sql_when_and sql_gt_def)

lemma CURRENT_STATUS_zero_delivered:
  "sql_SUM (map NB_ORDERLINE_DELIVERED_30D (rows30 h ls)) = Some 0
   \<Longrightarrow> CURRENT_STATUS m (Some (agg30_row m h ls)) = 0"
  by (simp add: CURRENT_STATUS_WEEK_FLAG WEEK_FLAG_zero_delivered)

subsection \<open>The streak\<close>





subsection \<open>The escalation policy\<close>

lemma FINAL_EMAIL_ACTION_EmailActions:
  "map FINAL_EMAIL_ACTION (EmailActions today h) = map final_action (EffectiveStreaks today h)"
  by (simp add: EmailActions_def comp_def)

lemma final_action_resolve: "final_action es = resolve_by_priority es"
  by (simp add: final_action_def resolve_by_priority_def priority_table_def streak_hit_def)

text \<open>
  Claim C2.  The final action of a seller is resolved in strict priority order, the first
  match winning: Suspension Notice if some metric has streak 5 and is currently failing,
  otherwise Last Warning for streak 4, otherwise First Warning for streak 1, otherwise No
  Action.  Every row of \<open>EmailActions\<close> carries the action that the priority table gives
  for its row of \<open>EffectiveStreaks\<close>.  In particular, streaks 4 (defective) and 5
  (appearance), both currently failing, resolve to Send Suspension Notice.
\<close>

theorem final_action_first_match:
  "map FINAL_EMAIL_ACTION (EmailActions today h) = map resolve_by_priority (EffectiveStreaks today h)
   \<and> final_action es = resolve_by_priority es
   \<and> (streak_hit 5 es \<longrightarrow> final_action es = ''Send Suspension Notice'')
   \<and> (\<not> streak_hit 5 es \<and> streak_hit 4 es \<longrightarrow> final_action es = ''Send Last Warning'')
   \<and> (\<not> streak_hit 5 es \<and> \<not> streak_hit 4 es \<and> streak_hit 1 es
        \<longrightarrow> final_action es = ''Send First Warning'')
   \<and> (\<not> streak_hit 5 es \<and> \<not> streak_hit 4 es \<and> \<not> streak_hit 1 es
        \<longrightarrow> final_action es = ''No Action'')
   \<and> (EFFECTIVE_DEFECTIVE_STREAK es = 4 \<and> EFFECTIVE_APPEARANCE_STREAK es = 5
        \<and> CURRENT_DEFECTIVE_STATUS es = 1 \<and> CURRENT_APPEARANCE_STATUS es = 1
        \<longrightarrow> final_action es = ''Send Suspension Notice'')"
proof -
  have "map FINAL_EMAIL_ACTION (EmailActions today h) = map resolve_by_priority (EffectiveStreaks today h)"
    by (simp add: FINAL_EMAIL_ACTION_EmailActions final_action_resolve)
  moreover have "final_action es = resolve_by_priority es"
    by (rule final_action_resolve)
  moreover have "streak_hit 5 es \<longrightarrow> final_action es = ''Send Suspension Notice''"
    by (simp add: final_action_def streak_hit_def)
  moreover have "\<not> streak_hit 5 es \<and> streak_hit 4 es \<longrightarrow> final_action es = ''Send Last Warning''"
    by (simp add: final_action_def streak_hit_def)
  moreover have "\<not> streak_hit 5 es \<and> \<not> streak_hit 4 es \<and> streak_hit 1 es
        \<longrightarrow> final_action es = ''Send First Warning''"
    by (simp add: final_action_def streak_hit_def)
  moreover have "\<not> streak_hit 5 es \<and> \<not> streak_hit 4 es \<and> \<not> streak_hit 1 es
        \<longrightarrow> final_action es = ''No Action''"
    by (simp add: final_action_def streak_hit_def)
  moreover have "EFFECTIVE_DEFECTIVE_STREAK es = 4 \<and> EFFECTIVE_APPEARANCE_STREAK es = 5
        \<and> CURRENT_DEFECTIVE_STATUS es = 1 \<and> CURRENT_APPEARANCE_STATUS es = 1
        \<longrightarrow> final_action es = ''Send Suspension Notice''"
    by (simp add: final_action_def)
  ultimately show ?thesis by blast
qed

theorem final_action_first_match_witness:
  "streak_hit 5 es_4_5 \<and> streak_hit 4 es_4_5
   \<and> final_action es_4_5 = ''Send Suspension Notice''
   \<and> resolve_by_priority es_4_5 = ''Send Suspension Notice''"
proof -
  note t = final_action_first_match [of 20402 "[]" es_4_5]
  have h5: "streak_hit 5 es_4_5" and h4: "streak_hit 4 es_4_5"
    by (simp_all add: streak_hit_def es_4_5_def)
  from t h5 have f: "final_action es_4_5 = ''Send Suspension Notice''" by blast
  from t f have "resolve_by_priority es_4_5 = ''Send Suspension Notice''" by metis
  with h5 h4 f show ?thesis by blast
qed



subsection \<open>The exclusion of long streaks\<close>



subsection \<open>Weeks without deliveries\<close>

text \<open>
  Claim C5.  When the delivered count of a week is 0 the ratio is guarded by \<open>NULLIF\<close>: the
  division raises no error (for no divisor at all), the ratio is NULL and counts as 0 where
  it is read, the weekly flags of both metrics are 0 whatever the issue count, the current
  30-day status flags are 0, and the reported 30-day rate is 0.
\<close>

theorem zero_delivered_never_fails:
  "RATE_checked issues (Some 0) = Inr None
   \<and> RATE_checked issues delivered = Inr (RATE issues delivered)
   \<and> COALESCE (RATE issues (Some 0)) 0 = 0
   \<and> WEEK_FLAG m issues (Some 0) = 0
   \<and> (\<forall>w \<in> set (WeeklyData h).
         sql_SUM (map NB_ORDERLINE_DELIVERED_30D (week_rows h (DATE_KPI w) (SELLER_ID w))) = Some 0
         \<longrightarrow> HAD_DEFECTIVE_ISSUE w = 0 \<and> HAD_APPEARANCE_ISSUE w = 0)
   \<and> (\<forall>x \<in> set (Metrics30D m today h).
         NB_DELIVERED_30D x = Some 0 \<longrightarrow> ISSUE_RATE_30D x = None \<and> CURRENT_STATUS m (Some x) = 0)
   \<and> (\<forall>c \<in> set (CurrentStatus today h).
         sql_SUM (map NB_ORDERLINE_DELIVERED_30D
           (rows30 h \<lparr>SELLER_ID = SELLER_ID c, DATE_KPI = DATE_KPI c, MARKET = ''JP''\<rparr>)) = Some 0
         \<longrightarrow> CURRENT_DEFECTIVE_STATUS c = 0 \<and> CURRENT_APPEARANCE_STATUS c = 0)
   \<and> (\<forall>j \<in> set (FinalFrom today h contacts).
         sql_SUM (map NB_ORDERLINE_DELIVERED_30D (rows30 h (j_ls j))) = Some 0
         \<longrightarrow> RATE_30D_out m j = 0)"
proof -
  have a: "RATE_checked issues (Some 0) = Inr None" by (rule RATE_zero_delivered)
  have a': "RATE_checked issues delivered = Inr (RATE issues delivered)" by (rule RATE_never_raises)
  have a'': "COALESCE (RATE issues (Some 0)) 0 = 0" by (simp add: RATE_zero_delivered COALESCE_def)
  have b: "WEEK_FLAG m issues (Some 0) = 0" by (rule WEEK_FLAG_zero_delivered)
  have c: "\<forall>w \<in> set (WeeklyData h).
         sql_SUM (map NB_ORDERLINE_DELIVERED_30D (week_rows h (DATE_KPI w) (SELLER_ID w))) = Some 0
         \<longrightarrow> HAD_DEFECTIVE_ISSUE w = 0 \<and> HAD_APPEARANCE_ISSUE w = 0"
    by (auto simp: WeeklyData_def WEEK_FLAG_zero_delivered)
  have d: "\<forall>x \<in> set (Metrics30D m today h).
         NB_DELIVERED_30D x = Some 0 \<longrightarrow> ISSUE_RATE_30D x = None \<and> CURRENT_STATUS m (Some x) = 0"
  proof (intro ballI impI)
    fix x assume x: "x \<in> set (Metrics30D m today h)" and z: "NB_DELIVERED_30D x = Some 0"
    from x obtain ls where x': "x = agg30_row m h ls" by (auto simp: in_Metrics30D)
    from z x' have s: "sql_SUM (map NB_ORDERLINE_DELIVERED_30D (rows30 h ls)) = Some 0"
      by (simp add: agg30_row_def)
    have "ISSUE_RATE_30D x = None" using s x' by (simp add: agg30_row_def RATE_zero_delivered)
    moreover have "CURRENT_STATUS m (Some x) = 0"
      unfolding x' by (rule CURRENT_STATUS_zero_delivered[OF s])
    ultimately show "ISSUE_RATE_30D x = None \<and> CURRENT_STATUS m (Some x) = 0" by simp
  qed
  have e: "\<forall>c \<in> set (CurrentStatus today h).
         sql_SUM (map NB_ORDERLINE_DELIVERED_30D
           (rows30 h \<lparr>SELLER_ID = SELLER_ID c, DATE_KPI = DATE_KPI c, MARKET = ''JP''\<rparr>)) = Some 0
         \<longrightarrow> CURRENT_DEFECTIVE_STATUS c = 0 \<and> CURRENT_APPEARANCE_STATUS c = 0"
  proof (intro ballI impI)
    fix c assume c: "c \<in> set (CurrentStatus today h)"
      and z: "sql_SUM (map NB_ORDERLINE_DELIVERED_30D
           (rows30 h \<lparr>SELLER_ID = SELLER_ID c, DATE_KPI = DATE_KPI c, MARKET = ''JP''\<rparr>)) = Some 0"
    from in_CurrentStatus[OF c] obtain ls where ls: "ls \<in> set (LatestSellerInfo today h)"
      and c': "c = \<lparr>SELLER_ID = SELLER_ID ls, DATE_KPI = DATE_KPI ls,
                 CURRENT_DEFECTIVE_STATUS = CURRENT_STATUS Defective (Some (agg30_row Defective h ls)),
                 CURRENT_APPEARANCE_STATUS = CURRENT_STATUS Appearance (Some (agg30_row Appearance h ls))\<rparr>"
      by blast
    have "ls = \<lparr>SELLER_ID = SELLER_ID c, DATE_KPI = DATE_KPI c, MARKET = ''JP''\<rparr>"
      using ls c' by (auto simp: in_LatestSellerInfo)
    then have s: "sql_SUM (map NB_ORDERLINE_DELIVERED_30D (rows30 h ls)) = Some 0" using z by simp
    show "CURRENT_DEFECTIVE_STATUS c = 0 \<and> CURRENT_APPEARANCE_STATUS c = 0"
      using c' CURRENT_STATUS_zero_delivered[OF s] by simp
  qed
  have f: "\<forall>j \<in> set (FinalFrom today h contacts).
         sql_SUM (map NB_ORDERLINE_DELIVERED_30D (rows30 h (j_ls j))) = Some 0
         \<longrightarrow> RATE_30D_out m j = 0"
  proof (intro ballI impI)
    fix j assume j: "j \<in> set (FinalFrom today h contacts)"
      and z: "sql_SUM (map NB_ORDERLINE_DELIVERED_30D (rows30 h (j_ls j))) = Some 0"
    have "j_x30 m j = Some (agg30_row m h (j_ls j))"
      using in_FinalFrom[OF j] by (cases m) simp_all
    then show "RATE_30D_out m j = 0"
      using z by (simp add: RATE_30D_out_def agg30_row_def RATE_zero_delivered COALESCE_def)
  qed
  from a a' a'' b c d e f show ?thesis by blast
qed

theorem zero_delivered_never_fails_witness:
  "w_zero \<in> set (WeeklyData h_ex)
   \<and> sql_SUM (map NB_DEFECTIVE_ISSUE (week_rows h_ex (DATE_KPI w_zero) (SELLER_ID w_zero))) = Some 4
   \<and> sql_SUM (map NB_ORDERLINE_DELIVERED_30D (week_rows h_ex (DATE_KPI w_zero) (SELLER_ID w_zero))) = Some 0
   \<and> HAD_DEFECTIVE_ISSUE w_zero = 0 \<and> HAD_APPEARANCE_ISSUE w_zero = 0
   \<and> RATE_checked (Some 4) (Some 0) = Inr None"
proof -
  note t = zero_delivered_never_fails [of "Some 4" "Some 0" Defective h_ex 20187 contacts_ex]
  have m: "w_zero \<in> set (WeeklyData h_ex)" by code_simp
  have n: "sql_SUM (map NB_DEFECTIVE_ISSUE (week_rows h_ex (DATE_KPI w_zero) (SELLER_ID w_zero))) = Some 4"
    by code_simp
  have z: "sql_SUM (map NB_ORDERLINE_DELIVERED_30D (week_rows h_ex (DATE_KPI w_zero) (SELLER_ID w_zero))) = Some 0"
    by code_simp
  from t m z have "HAD_DEFECTIVE_ISSUE w_zero = 0 \<and> HAD_APPEARANCE_ISSUE w_zero = 0" by blast
  moreover from t have "RATE_checked (Some 4) (Some 0) = Inr None" by blast
  ultimately show ?thesis using m n z by blast
qed

section \<open>Verified properties of the script\<close>

subsection \<open>Sheets\<close>

lemma cell_at_pad_update:
  "0 < c \<Longrightarrow> cell_at ((pad_to c (Str []) row)[c - 1 := v]) k = (if k = c - 1 then v else cell_at row k)"
  by (auto simp: cell_at_def pad_to_def nth_append nth_list_update)

lemma setValue_row:
  assumes "i < length sh"
  shows "setValue (Suc i) c v sh = sh[i := (pad_to c (Str []) (sh ! i))[c - 1 := v]]"
  using assms by (simp add: setValue_def pad_to_def Let_def)

lemma length_setValue: "i < length sh \<Longrightarrow> length (setValue (Suc i) c v sh) = length sh"
  by (simp add: setValue_row)

lemma setValue_other_row:
  "i < length sh \<Longrightarrow> j \<noteq> i \<Longrightarrow> setValue (Suc i) c v sh ! j = sh ! j"
  by (simp add: setValue_row)

lemma setValue_same_row:
  "i < length sh \<Longrightarrow> 0 < c \<Longrightarrow>
   cell_at (setValue (Suc i) c v sh ! i) k = (if k = c - 1 then v else cell_at (sh ! i) k)"
  using cell_at_pad_update[of c "sh ! i" v k] by (simp add: setValue_row)

lemma find_row_Some:
  "find_row p n rows = Some i \<Longrightarrow>
     n \<le> i \<and> i - n < length rows \<and> p (rows ! (i - n)) \<and> (\<forall>j. n \<le> j \<and> j < i \<longrightarrow> \<not> p (rows ! (j - n)))"
proof (induction rows arbitrary: n)
  case Nil then show ?case by simp
next
  case (Cons row rows)
  show ?case
  proof (cases "p row")
    case True
    then show ?thesis using Cons.prems by simp
  next
    case False
    then have f: "find_row p (Suc n) rows = Some i" using Cons.prems by simp
    from Cons.IH[OF f] have ih: "Suc n \<le> i" "i - Suc n < length rows" "p (rows ! (i - Suc n))"
      "\<forall>j. Suc n \<le> j \<and> j < i \<longrightarrow> \<not> p (rows ! (j - Suc n))" by simp_all
    have a: "(row # rows) ! (i - n) = rows ! (i - Suc n)" using ih(1) by (simp add: nth_Cons')
    have b: "\<not> p ((row # rows) ! (j - n))" if "n \<le> j" "j < i" for j
    proof (cases "j = n")
      case True then show ?thesis using False by simp
    next
      case F: False
      then have "Suc n \<le> j" using that by simp
      then show ?thesis using ih(4) that by (simp add: nth_Cons')
    qed
    show ?thesis using ih a b by auto
  qed
qed


lemma find_row_cong:
  assumes "length rows' = length rows" and "\<And>k. k < length rows \<Longrightarrow> p (rows' ! k) = p (rows ! k)"
  shows "find_row p n rows' = find_row p n rows"
  using assms
proof (induction rows arbitrary: rows' n)
  case Nil then show ?case by simp
next
  case (Cons row rows)
  then obtain r' rs' where r: "rows' = r' # rs'" by (cases rows') auto
  have "p r' = p row" using Cons.prems(2)[of 0] r by simp
  moreover have "find_row p (Suc n) rs' = find_row p (Suc n) rows"
  proof (rule Cons.IH)
    show "length rs' = length rows" using Cons.prems(1) r by simp
    show "\<And>k. k < length rows \<Longrightarrow> p (rs' ! k) = p (rows ! k)"
      using Cons.prems(2)[of "Suc _"] r by simp
  qed
  ultimately show ?case using r by simp
qed

text \<open>The first row after the header that satisfies \<open>p\<close>, as the loops of the script find it.\<close>

lemma find_row_data:
  assumes "find_row p 1 (tl data) = Some i"
  shows "1 \<le> i \<and> i < length data \<and> p (data ! i) \<and> (\<forall>j. 1 \<le> j \<and> j < i \<longrightarrow> \<not> p (data ! j))"
proof -
  from find_row_Some[OF assms] have a: "1 \<le> i" "i - 1 < length (tl data)" "p (tl data ! (i - 1))"
    "\<forall>j. 1 \<le> j \<and> j < i \<longrightarrow> \<not> p (tl data ! (j - 1))" by simp_all
  then have ne: "data \<noteq> []" by auto
  have nth: "\<And>j. 1 \<le> j \<Longrightarrow> tl data ! (j - 1) = data ! j"
    using ne by (cases data) (simp_all add: nth_Cons')
  show ?thesis using a nth ne by (auto simp: less_diff_conv)
qed

subsection \<open>Opening a tracked mail\<close>

lemma strict_eq_Str: "strict_eq x (Str s) \<longleftrightarrow> x = Str s"
  by (cases x) auto

lemma sheets_put_sheet: "sheets (put_sheet name sh w) = (sheets w)(name \<mapsto> sh)"
  by (simp add: put_sheet_def)

lemma find_row_same_keys:
  assumes len: "length d1 = length data"
    and rows: "\<And>j. j < length data \<Longrightarrow> cell_at (d1 ! j) c = cell_at (data ! j) c"
  shows "find_row (\<lambda>row. q (cell_at row c)) n (tl d1) = find_row (\<lambda>row. q (cell_at row c)) n (tl data)"
proof (rule find_row_cong)
  show "length (tl d1) = length (tl data)" using len by simp
  fix k assume k: "k < length (tl data)"
  then have "Suc k < length data" by simp
  moreover have "tl d1 ! k = d1 ! Suc k" "tl data ! k = data ! Suc k"
    using k len by (simp_all add: nth_tl)
  ultimately show "q (cell_at (tl d1 ! k) c) = q (cell_at (tl data ! k) c)"
    using rows[of "Suc k"] by simp
qed

lemma recordEmailOpen_first:
  assumes sh: "sheets w TRACKING_SHEETS_MAIN = Some data"
    and row: "find_row (\<lambda>row. strict_eq (cell_at row 0) (Str trackingId)) 1 (tl data) = Some i"
    and unopened: "cell_at (data ! i) 6 = Str ''No''"
  shows "\<exists>d1. sheets (recordEmailOpen trackingId now w) TRACKING_SHEETS_MAIN = Some d1
           \<and> length d1 = length data \<and> (\<forall>j. j \<noteq> i \<longrightarrow> d1 ! j = data ! j)
           \<and> (\<forall>k. cell_at (d1 ! i) k =
                 (if k = 5 then Str now else if k = 6 then Str ''Yes''
                  else if k = 7 then Num 1 else cell_at (data ! i) k))"
proof -
  from find_row_data[OF row] have i: "i < length data" by simp
  let ?a = "setValue (Suc i) 6 (Str now) data"
  let ?b = "setValue (Suc i) 7 (Str ''Yes'') ?a"
  let ?c = "setValue (Suc i) 8 (Num 1) ?b"
  have la: "length ?a = length data" using i by (simp add: length_setValue)
  have lb: "length ?b = length data" using i la by (simp add: length_setValue)
  have lc: "length ?c = length data" using i lb by (simp add: length_setValue)
  have rows: "?c ! j = data ! j" if "j \<noteq> i" for j
    using that i la lb by (simp add: setValue_other_row)
  have cells: "cell_at (?c ! i) k =
                 (if k = 5 then Str now else if k = 6 then Str ''Yes''
                  else if k = 7 then Num 1 else cell_at (data ! i) k)" for k
    using i la lb by (simp add: setValue_same_row)
  have "recordEmailOpen trackingId now w = put_sheet TRACKING_SHEETS_MAIN ?c w"
    using sh row unopened by (simp add: recordEmailOpen_def strict_eq_Str)
  then have "sheets (recordEmailOpen trackingId now w) TRACKING_SHEETS_MAIN = Some ?c"
    by (simp add: sheets_put_sheet)
  with lc rows cells show ?thesis by blast
qed

lemma recordEmailOpen_again:
  assumes sh: "sheets w TRACKING_SHEETS_MAIN = Some data"
    and row: "find_row (\<lambda>row. strict_eq (cell_at row 0) (Str trackingId)) 1 (tl data) = Some i"
    and opened: "cell_at (data ! i) 6 \<noteq> Str ''No''"
    and views: "cell_at (data ! i) 7 = Num n"
  shows "\<exists>d1. sheets (recordEmailOpen trackingId now w) TRACKING_SHEETS_MAIN = Some d1
           \<and> length d1 = length data \<and> (\<forall>j. j \<noteq> i \<longrightarrow> d1 ! j = data ! j)
           \<and> (\<forall>k. cell_at (d1 ! i) k = (if k = 7 then Num (n + 1) else cell_at (data ! i) k))"
proof -
  from find_row_data[OF row] have i: "i < length data" by simp
  have v: "(case Number_js (js_or (cell_at (data ! i) 7) (Num 0)) of
              Num currentViews \<Rightarrow> Num (currentViews + 1) | _ \<Rightarrow> NaN) = Num (n + 1)"
    using views by (simp add: js_or_def)
  let ?c = "setValue (Suc i) 8 (Num (n + 1)) data"
  have "recordEmailOpen trackingId now w = put_sheet TRACKING_SHEETS_MAIN ?c w"
    using sh row opened v by (simp add: recordEmailOpen_def strict_eq_Str)
  then have "sheets (recordEmailOpen trackingId now w) TRACKING_SHEETS_MAIN = Some ?c"
    by (simp add: sheets_put_sheet)
  moreover have "length ?c = length data" using i by (simp add: length_setValue)
  moreover have "\<forall>j. j \<noteq> i \<longrightarrow> ?c ! j = data ! j" using i by (simp add: setValue_other_row)
  moreover have "\<forall>k. cell_at (?c ! i) k = (if k = 7 then Num (n + 1) else cell_at (data ! i) k)"
    using i by (simp add: setValue_same_row)
  ultimately show ?thesis by blast
qed

text \<open>
  Claim C7.  Let a TrackingRecord be the first row of the tracking sheet with its tracking id,
  not yet opened.  The first call of \<open>recordEmailOpen\<close> for the id sets "Email Opened" to
  Yes, the open time to the current time and the view count to 1.  A second call for the same
  id leaves the open time as it is and raises the view count by exactly 1.  No other row and
  no other cell of the record changes.
\<close>

theorem open_then_view:
  assumes sh: "sheets w TRACKING_SHEETS_MAIN = Some data"
    and row: "find_row (\<lambda>row. strict_eq (cell_at row 0) (Str trackingId)) 1 (tl data) = Some i"
    and unopened: "cell_at (data ! i) 6 = Str ''No''"
  shows "\<exists>d1 d2.
           sheets (recordEmailOpen trackingId t1 w) TRACKING_SHEETS_MAIN = Some d1
           \<and> cell_at (d1 ! i) 0 = Str trackingId
           \<and> cell_at (d1 ! i) 5 = Str t1 \<and> cell_at (d1 ! i) 6 = Str ''Yes''
           \<and> cell_at (d1 ! i) 7 = Num 1
           \<and> sheets (recordEmailOpen trackingId t2 (recordEmailOpen trackingId t1 w))
                 TRACKING_SHEETS_MAIN = Some d2
           \<and> cell_at (d2 ! i) 5 = cell_at (d1 ! i) 5 \<and> cell_at (d2 ! i) 6 = Str ''Yes''
           \<and> cell_at (d2 ! i) 7 = Num (1 + 1)
           \<and> length d2 = length data \<and> (\<forall>j. j \<noteq> i \<longrightarrow> d2 ! j = data ! j)
           \<and> (\<forall>k. k \<notin> {5, 6, 7} \<longrightarrow> cell_at (d2 ! i) k = cell_at (data ! i) k)"
proof -
  let ?p = "\<lambda>row. strict_eq (cell_at row 0) (Str trackingId)"
  from find_row_data[OF row] have i: "i < length data" and pi: "cell_at (data ! i) 0 = Str trackingId"
    by (simp_all add: strict_eq_Str)
  from recordEmailOpen_first[OF sh row unopened, of t1] obtain d1 where
    s1: "sheets (recordEmailOpen trackingId t1 w) TRACKING_SHEETS_MAIN = Some d1"
    and l1: "length d1 = length data" and r1: "\<forall>j. j \<noteq> i \<longrightarrow> d1 ! j = data ! j"
    and c1: "\<forall>k. cell_at (d1 ! i) k =
                 (if k = 5 then Str t1 else if k = 6 then Str ''Yes''
                  else if k = 7 then Num 1 else cell_at (data ! i) k)"
    by blast
  have keys: "cell_at (d1 ! j) 0 = cell_at (data ! j) 0" for j
    using r1 c1 by (cases "j = i") simp_all
  have row1: "find_row ?p 1 (tl d1) = Some i"
    using find_row_same_keys[of d1 data 0 "\<lambda>x. strict_eq x (Str trackingId)" 1] l1 keys row by simp
  have o1: "cell_at (d1 ! i) 6 \<noteq> Str ''No''" and v1: "cell_at (d1 ! i) 7 = Num 1"
    using c1 by simp_all
  from recordEmailOpen_again[OF s1 row1 o1 v1, of t2] obtain d2 where
    s2: "sheets (recordEmailOpen trackingId t2 (recordEmailOpen trackingId t1 w))
           TRACKING_SHEETS_MAIN = Some d2"
    and l2: "length d2 = length d1" and r2: "\<forall>j. j \<noteq> i \<longrightarrow> d2 ! j = d1 ! j"
    and c2: "\<forall>k. cell_at (d2 ! i) k = (if k = 7 then Num (1 + 1) else cell_at (d1 ! i) k)"
    by blast
  have a: "cell_at (d1 ! i) 0 = Str trackingId" using keys pi by simp
  have b: "cell_at (d1 ! i) 5 = Str t1" "cell_at (d1 ! i) 6 = Str ''Yes''" "cell_at (d1 ! i) 7 = Num 1"
    using c1 by simp_all
  have c: "cell_at (d2 ! i) 5 = cell_at (d1 ! i) 5" "cell_at (d2 ! i) 6 = Str ''Yes''"
    "cell_at (d2 ! i) 7 = Num (1 + 1)"
    using c2 b by simp_all
  have d: "length d2 = length data" using l1 l2 by simp
  have e: "\<forall>j. j \<noteq> i \<longrightarrow> d2 ! j = data ! j" using r1 r2 by simp
  have f: "\<forall>k. k \<notin> {5, 6, 7} \<longrightarrow> cell_at (d2 ! i) k = cell_at (data ! i) k"
    using c1 c2 by simp
  from s1 a b s2 c d e f show ?thesis by blast
qed

theorem open_then_view_witness:
  "sheets w_sent TRACKING_SHEETS_MAIN
     = Some [main_header,
             tracking_row ''uuid-0'' (Str ''a@shop.example, bad, b@shop.example'') (Num 1042)
               ''Send Last Warning'' ''2025/04/21 09:00:00'']
   \<and> (\<exists>d1 d2.
         sheets (recordEmailOpen ''uuid-0'' ''2025/04/22 10:00:00'' w_sent) TRACKING_SHEETS_MAIN = Some d1
         \<and> cell_at (d1 ! 1) 5 = Str ''2025/04/22 10:00:00'' \<and> cell_at (d1 ! 1) 6 = Str ''Yes''
         \<and> cell_at (d1 ! 1) 7 = Num 1
         \<and> sheets (recordEmailOpen ''uuid-0'' ''2025/04/23 11:00:00''
                     (recordEmailOpen ''uuid-0'' ''2025/04/22 10:00:00'' w_sent)) TRACKING_SHEETS_MAIN
             = Some d2
         \<and> cell_at (d2 ! 1) 5 = Str ''2025/04/22 10:00:00'' \<and> cell_at (d2 ! 1) 7 = Num 2)"
proof -
  let ?data = "[main_header,
             tracking_row ''uuid-0'' (Str ''a@shop.example, bad, b@shop.example'') (Num 1042)
               ''Send Last Warning'' ''2025/04/21 09:00:00'']"
  have sh: "sheets w_sent TRACKING_SHEETS_MAIN = Some ?data" by code_simp
  have row: "find_row (\<lambda>row. strict_eq (cell_at row 0) (Str ''uuid-0'')) 1 (tl ?data) = Some 1"
    by code_simp
  have un: "cell_at (?data ! 1) 6 = Str ''No''" by code_simp
  from open_then_view[OF sh row un, of "''2025/04/22 10:00:00''" "''2025/04/23 11:00:00''"]
  obtain d1 d2 where
    a: "sheets (recordEmailOpen ''uuid-0'' ''2025/04/22 10:00:00'' w_sent) TRACKING_SHEETS_MAIN = Some d1"
    "cell_at (d1 ! 1) 5 = Str ''2025/04/22 10:00:00''" "cell_at (d1 ! 1) 6 = Str ''Yes''"
    "cell_at (d1 ! 1) 7 = Num 1"
    "sheets (recordEmailOpen ''uuid-0'' ''2025/04/23 11:00:00''
                     (recordEmailOpen ''uuid-0'' ''2025/04/22 10:00:00'' w_sent)) TRACKING_SHEETS_MAIN
             = Some d2"
    "cell_at (d2 ! 1) 5 = cell_at (d1 ! 1) 5" "cell_at (d2 ! 1) 7 = Num (1 + 1)"
    by blast
  then have "cell_at (d2 ! 1) 5 = Str ''2025/04/22 10:00:00''" "cell_at (d2 ! 1) 7 = Num 2"
    by simp_all
  with a sh show ?thesis by blast
qed

subsection \<open>The status update\<close>



subsection \<open>The dispatcher\<close>

text \<open>
  \<open>isValidEmail\<close> accepts exactly the strings that the regular expression describes: a part
  without whitespace and \<open>@\<close>, an \<open>@\<close>, such a part, a dot, and such a part.
\<close>

lemma plain_part_append:
  "plain_part (xs @ ys) \<longleftrightarrow>
     (xs \<noteq> [] \<or> ys \<noteq> []) \<and> list_all (\<lambda>c. \<not> is_space c \<and> c \<noteq> CHR ''@'') xs
     \<and> list_all (\<lambda>c. \<not> is_space c \<and> c \<noteq> CHR ''@'') ys"
  by (auto simp: plain_part_def)

lemma isValidEmail_regex:
  "isValidEmail email \<longleftrightarrow>
     (\<exists>a b c. email = a @ ''@'' @ b @ ''.'' @ c \<and> plain_part a \<and> plain_part b \<and> plain_part c)"
proof
  assume v: "isValidEmail email"
  let ?a = "takeWhile (\<lambda>c. c \<noteq> CHR ''@'') email"
  let ?rest = "dropWhile (\<lambda>c. c \<noteq> CHR ''@'') email"
  from v have pa: "plain_part ?a" by (simp add: isValidEmail_def Let_def)
  from v obtain c0 d where rest: "?rest = c0 # d" and pd: "plain_part d"
    and dot: "CHR ''.'' \<in> set (butlast (tl d))"
    by (auto simp: isValidEmail_def Let_def split: list.splits)
  have c0: "c0 = CHR ''@''" using rest hd_dropWhile[of "\<lambda>c. c \<noteq> CHR ''@''" email] by auto
  have e: "email = ?a @ CHR ''@'' # d" using rest c0 takeWhile_dropWhile_id[of "\<lambda>c. c \<noteq> CHR ''@''" email]
    by simp
  from dot obtain xs ys where sp: "butlast (tl d) = xs @ CHR ''.'' # ys" by (auto dest: split_list)
  then have ne: "tl d \<noteq> []" by auto
  then have dne: "d \<noteq> []" by auto
  have "tl d = butlast (tl d) @ [last (tl d)]" using ne by simp
  then have tld: "tl d = xs @ CHR ''.'' # ys @ [last (tl d)]" using sp by simp
  have "d = hd d # tl d" using dne by simp
  then have d: "d = (hd d # xs) @ ''.'' @ (ys @ [last (tl d)])" using tld by simp
  have all: "list_all (\<lambda>c. \<not> is_space c \<and> c \<noteq> CHR ''@'') d" using pd by (simp add: plain_part_def)
  have "list_all (\<lambda>c. \<not> is_space c \<and> c \<noteq> CHR ''@'') ((hd d # xs) @ ''.'' @ (ys @ [last (tl d)]))"
    using all d by simp
  then have pb: "plain_part (hd d # xs)" and pc: "plain_part (ys @ [last (tl d)])"
    by (simp_all add: plain_part_def)
  have "email = ?a @ ''@'' @ (hd d # xs) @ ''.'' @ (ys @ [last (tl d)])"
    using e d by simp
  with pa pb pc show "\<exists>a b c. email = a @ ''@'' @ b @ ''.'' @ c \<and> plain_part a \<and> plain_part b \<and> plain_part c"
    by blast
next
  assume "\<exists>a b c. email = a @ ''@'' @ b @ ''.'' @ c \<and> plain_part a \<and> plain_part b \<and> plain_part c"
  then obtain a b c where e: "email = a @ ''@'' @ b @ ''.'' @ c"
    and pa: "plain_part a" and pb: "plain_part b" and pc: "plain_part c" by blast
  have noat: "\<forall>x \<in> set a. x \<noteq> CHR ''@''" using pa by (auto simp: plain_part_def list_all_iff)
  have tw: "takeWhile (\<lambda>c. c \<noteq> CHR ''@'') email = a"
    using noat e by (simp add: takeWhile_append2)
  have dw: "dropWhile (\<lambda>c. c \<noteq> CHR ''@'') email = CHR ''@'' # (b @ ''.'' @ c)"
    using noat e by (simp add: dropWhile_append2)
  have dotok: "\<not> is_space CHR ''.''" by (simp add: is_space_def)
  have pd: "plain_part (b @ ''.'' @ c)"
    using pb pc dotok by (simp add: plain_part_def)
  obtain b0 bs where b: "b = b0 # bs" using pb by (cases b) (auto simp: plain_part_def)
  have cne: "c \<noteq> []" using pc by (simp add: plain_part_def)
  have "butlast (tl (b @ ''.'' @ c)) = bs @ CHR ''.'' # butlast c"
    using b cne by (simp add: butlast_append)
  then have dot: "CHR ''.'' \<in> set (butlast (tl (b @ ''.'' @ c)))" by simp
  show "isValidEmail email"
    unfolding isValidEmail_def Let_def tw dw using pa pd dot by simp
qed


lemma tier_of_action_None:
  "tier_of_action a = None \<longleftrightarrow>
     a \<notin> {''Send First Warning'', ''Send Last Warning'', ''Send Suspension Notice''}"
  by (simp add: tier_of_action_def)


text \<open>
  Claim C10.  For a final action that is none of Send First Warning, Send Last Warning and
  Send Suspension Notice, \<open>sendQualityNotification\<close> returns false and leaves the world as it
  is: no mail is sent and no row is appended to any sheet.
\<close>

theorem unknown_action_no_effect:
  assumes "finalEmailAction d \<notin> {''Send First Warning'', ''Send Last Warning'', ''Send Suspension Notice''}"
  shows "sendQualityNotification P now d w = (False, w)"
  using assms by (simp add: sendQualityNotification_def tier_of_action_def)

theorem unknown_action_no_effect_witness:
  "finalEmailAction (d_ex\<lparr>finalEmailAction := ''No Action''\<rparr>)
     \<notin> {''Send First Warning'', ''Send Last Warning'', ''Send Suspension Notice''}
   \<and> sendQualityNotification P_ex ''2025/04/21 09:00:00'' (d_ex\<lparr>finalEmailAction := ''No Action''\<rparr>) w_sent
       = (False, w_sent)"
proof -
  have h: "finalEmailAction (d_ex\<lparr>finalEmailAction := ''No Action''\<rparr>)
     \<notin> {''Send First Warning'', ''Send Last Warning'', ''Send Suspension Notice''}"
    by simp
  from unknown_action_no_effect[OF h] h show ?thesis by blast
qed




subsection \<open>Matching a seller id\<close>















end
